theory Spec2Isabelle
  imports Main "HOL-Library.Sublist"
begin

section \<open>Python values and exceptions\<close>

text \<open>
  The scripts handle decoded JSON, criteria dictionaries, request payloads and the fields
  of \<open>Person\<close> objects as plain Python values, with no type check anywhere. One
  datatype covers them: \<open>JNull\<close> is \<open>None\<close>, a \<open>JObj\<close> is a \<open>dict\<close> with string keys (an
  association list in insertion order, one entry per key), a \<open>JList\<close> a \<open>list\<close>.
  Numbers are integers. A \<open>string\<close> holds one \<open>char\<close> per code point, for text whose
  code points lie below 256.
\<close>

datatype json =
    JNull
  | JBool bool
  | JNum int
  | JStr string
  | JList "json list"
  | JObj "(string \<times> json) list"

type_synonym pydict = "(string \<times> json) list"

text \<open>
  The exceptions that occur. \<open>HTTPError\<close> is what \<open>raise_for_status\<close> raises: its text names
  the status code, the reason phrase and the URL, and not the body of the response, so the
  status code is all it carries here. \<open>ConnectionError\<close> stands for every failure of the
  transport, \<open>JSONDecodeError\<close> for a body that \<open>response.json()\<close> cannot decode (a
  \<open>RequestException\<close> in current versions of the library). \<open>APIError\<close> is the plain
  \<open>Exception\<close> the clients of main.py raise, with its prefix and the exception whose text
  it quotes.
\<close>

datatype exc =
    ValueError string
  | TypeError
  | AttributeError
  | KeyError string
  | IndexError
  | JSONDecodeError
  | ConnectionError string
  | HTTPError nat
  | APIError string exc

text \<open>Truth value of a Python object, as \<open>if x:\<close> and \<open>not x\<close> take it.\<close>

fun py_truthy :: "json \<Rightarrow> bool" where
  "py_truthy JNull = False"
| "py_truthy (JBool b) = b"
| "py_truthy (JNum n) = (n \<noteq> 0)"
| "py_truthy (JStr s) = (s \<noteq> [])"
| "py_truthy (JList xs) = (xs \<noteq> [])"
| "py_truthy (JObj kvs) = (kvs \<noteq> [])"

text \<open>\<open>d.get(k, default)\<close> on a dictionary.\<close>

definition dict_get :: "pydict \<Rightarrow> string \<Rightarrow> json \<Rightarrow> json" where
  "dict_get d k dflt = (case map_of d k of None \<Rightarrow> dflt | Some v \<Rightarrow> v)"

text \<open>\<open>x.get(k, default)\<close> on any value: only a \<open>dict\<close> has the method.\<close>

fun py_get :: "json \<Rightarrow> string \<Rightarrow> json \<Rightarrow> exc + json" where
  "py_get (JObj d) k dflt = Inr (dict_get d k dflt)"
| "py_get _ k dflt = Inl AttributeError"

text \<open>\<open>x[k]\<close> with a string key: a \<open>dict\<close> answers or raises KeyError, anything else
  raises TypeError.\<close>

fun py_item :: "json \<Rightarrow> string \<Rightarrow> exc + json" where
  "py_item (JObj d) k = (case map_of d k of None \<Rightarrow> Inl (KeyError k) | Some v \<Rightarrow> Inr v)"
| "py_item _ k = Inl TypeError"

text \<open>\<open>x[0]\<close>: the first element of a list, the first character of a string; a JSON
  object has string keys only, so the key \<open>0\<close> is never present.\<close>

fun py_first :: "json \<Rightarrow> exc + json" where
  "py_first (JList []) = Inl IndexError"
| "py_first (JList (x # xs)) = Inr x"
| "py_first (JStr []) = Inl IndexError"
| "py_first (JStr (c # cs)) = Inr (JStr [c])"
| "py_first (JObj d) = Inl (KeyError ''0'')"
| "py_first _ = Inl TypeError"

text \<open>The items a \<open>for\<close> loop (or \<open>str.join\<close>) draws from a value: the elements of a
  list, the keys of a dict, the characters of a string.\<close>

fun py_iter :: "json \<Rightarrow> exc + json list" where
  "py_iter (JList xs) = Inr xs"
| "py_iter (JObj d) = Inr (map (\<lambda>kv. JStr (fst kv)) d)"
| "py_iter (JStr s) = Inr (map (\<lambda>c. JStr [c]) s)"
| "py_iter _ = Inl TypeError"

text \<open>Sequencing of steps that may raise.\<close>

definition bindE :: "exc + 'a \<Rightarrow> ('a \<Rightarrow> exc + 'b) \<Rightarrow> exc + 'b" where
  "bindE m f = (case m of Inl e \<Rightarrow> Inl e | Inr x \<Rightarrow> f x)"

fun mapE :: "('a \<Rightarrow> exc + 'b) \<Rightarrow> 'a list \<Rightarrow> exc + 'b list" where
  "mapE f [] = Inr []"
| "mapE f (x # xs) = bindE (f x) (\<lambda>y. bindE (mapE f xs) (\<lambda>ys. Inr (y # ys)))"

subsection \<open>Strings\<close>

text \<open>\<open>str.lower\<close>, character by character: the letters A to Z and the upper-case
  letters of Latin-1 move up by 32.\<close>

definition lower_char :: "char \<Rightarrow> char" where
  "lower_char c =
     (let n = (of_char c :: nat)
      in if (65 \<le> n \<and> n \<le> 90) \<or> (192 \<le> n \<and> n \<le> 222 \<and> n \<noteq> 215)
         then char_of (n + 32) else c)"

definition lower :: "string \<Rightarrow> string" where
  "lower s = map lower_char s"

text \<open>\<open>sub in s\<close> on strings.\<close>

fun contains :: "string \<Rightarrow> string \<Rightarrow> bool" where
  "contains sub [] = (sub = [])"
| "contains sub (c # cs) = (prefix sub (c # cs) \<or> contains sub cs)"

text \<open>\<open>sep.join(xs)\<close> on strings.\<close>

fun join :: "string \<Rightarrow> string list \<Rightarrow> string" where
  "join sep [] = []"
| "join sep [x] = x"
| "join sep (x # y # ys) = x @ sep @ join sep (y # ys)"

text \<open>\<open>' '.join(v)\<close> on any value: every item drawn from \<open>v\<close> must be a string.\<close>

fun the_str :: "json \<Rightarrow> exc + string" where
  "the_str (JStr s) = Inr s"
| "the_str _ = Inl TypeError"

definition py_join :: "string \<Rightarrow> json \<Rightarrow> exc + string" where
  "py_join sep v = bindE (py_iter v) (\<lambda>items. bindE (mapE the_str items) (\<lambda>ss. Inr (join sep ss)))"

text \<open>\<open>str.strip\<close>: white space is removed at both ends.\<close>

definition is_space :: "char \<Rightarrow> bool" where
  "is_space c = (of_char c \<in> {9, 10, 11, 12, 13, 28, 29, 30, 31, 32, 133, 160 :: nat})"

definition strip :: "string \<Rightarrow> string" where
  "strip s = rev (dropWhile is_space (rev (dropWhile is_space s)))"

section \<open>The query classifier of \<open>search_by_natural_language\<close>\<close>

text \<open>
  Lines 212 to 256 of main.py choose the branch and build the criteria dictionary; the
  provider calls of each branch follow further down. \<open>FaangBranch\<close> carries the criteria
  and the domains of the per-domain lookups, \<open>TitleBranch\<close> the criteria, and in
  \<open>NoBranch\<close> no criteria dictionary is built at all.
\<close>

datatype branch =
    FaangBranch pydict "string list"
  | TitleBranch pydict
  | NoBranch

definition faang_companies :: "string list" where
  "faang_companies = [''Meta'', ''Apple'', ''Amazon'', ''Netflix'', ''Google'']"

definition faang_domains :: "string list" where
  "faang_domains = [''meta.com'', ''apple.com'', ''amazon.com'', ''netflix.com'', ''google.com'']"

definition str_list :: "string list \<Rightarrow> json" where
  "str_list xs = JList (map JStr xs)"

definition classify :: "string \<Rightarrow> branch" where
  "classify query =
     (let query_lower = lower query
      in if contains ''faang'' query_lower then
           FaangBranch [(''company_names'', str_list faang_companies), (''limit'', JNum 50)]
                       faang_domains
         else if list_ex (\<lambda>title. contains title query_lower)
                   [''engineer'', ''developer'', ''manager'', ''director'', ''ceo'', ''cto''] then
           (let job_titles =
                  (if contains ''engineer'' query_lower \<or> contains ''developer'' query_lower then
                     [''Software Engineer'', ''Senior Software Engineer'', ''Developer'']
                   else if contains ''manager'' query_lower then
                     [''Engineering Manager'', ''Product Manager'', ''Manager'']
                   else if contains ''director'' query_lower then
                     [''Director'', ''Engineering Director'']
                   else if contains ''ceo'' query_lower then
                     [''CEO'', ''Chief Executive Officer'']
                   else if contains ''cto'' query_lower then
                     [''CTO'', ''Chief Technology Officer'']
                   else [])
            in TitleBranch [(''job_titles'', str_list job_titles), (''limit'', JNum 25)])
         else NoBranch)"

section \<open>Contact records and providers\<close>

text \<open>The dataclass \<open>Person\<close>. Nothing checks the declared type \<open>str\<close>, so a field
  holds whatever value the constructor is given.\<close>

record person =
  name :: json
  email :: json
  phone :: json
  linkedin_url :: json
  job_title :: json
  company :: json
  location :: json

text \<open>
  What \<open>requests.post\<close> and \<open>requests.get\<close> come back with: an exception of the
  transport, or a response with its status code, its text and the value \<open>response.json()\<close>
  decodes from it (\<open>None\<close> when the text is not JSON, where \<open>json()\<close> raises).
\<close>

datatype http_result =
    NetworkFailure string
  | Response nat string "json option"

text \<open>A request as sent: the URL with the JSON body of a POST or the query parameters
  of a GET.\<close>

datatype request =
    Post string pydict
  | Get string pydict

text \<open>
  The environment of one run: the three API keys as \<open>os.getenv\<close> returns them, the
  answer of each provider to a request (the enrichment provider is asked once per record,
  so its answer may also depend on the position of the record in the batch), and the text
  Python's string formatting gives for numbers, lists and dicts.
\<close>

record env =
  apollo_api_key :: "string option"
  hunter_api_key :: "string option"
  clado_api_key :: "string option"
  apollo_post :: "pydict \<Rightarrow> http_result"
  hunter_get :: "pydict \<Rightarrow> http_result"
  clado_get :: "nat \<Rightarrow> pydict \<Rightarrow> http_result"
  render :: "json \<Rightarrow> string"

text \<open>\<open>if not key\<close> holds for \<open>None\<close> and for the empty string.\<close>

definition key_set :: "string option \<Rightarrow> bool" where
  "key_set k = (case k of None \<Rightarrow> False | Some s \<Rightarrow> s \<noteq> [])"

text \<open>A value inside an f-string.\<close>

fun py_str :: "(json \<Rightarrow> string) \<Rightarrow> json \<Rightarrow> string" where
  "py_str r (JStr s) = s"
| "py_str r JNull = ''None''"
| "py_str r (JBool b) = (if b then ''True'' else ''False'')"
| "py_str r v = r v"

text \<open>\<open>response.raise_for_status()\<close> raises for the status codes 400 to 599.\<close>

definition raises_for_status :: "nat \<Rightarrow> bool" where
  "raises_for_status status = (400 \<le> status \<and> status < 600)"

section \<open>\<open>search_people_apollo\<close> (main.py)\<close>

definition apollo_url :: string where
  "apollo_url = ''https://api.apollo.io/v1/mixed_people/search''"

text \<open>Lines 57 to 70: the payload. A key assigned for the first time goes to the end of
  the dictionary.\<close>

definition apollo_payload :: "pydict \<Rightarrow> exc + pydict" where
  "apollo_payload criteria =
     (let payload = [(''page'', JNum 1), (''per_page'', dict_get criteria ''limit'' (JNum 25))];
          payload = (case map_of criteria ''job_titles'' of
                       None \<Rightarrow> payload | Some v \<Rightarrow> payload @ [(''person_titles'', v)]);
          payload = (case map_of criteria ''company_names'' of
                       None \<Rightarrow> payload | Some v \<Rightarrow> payload @ [(''organization_names'', v)]);
          payload = (case map_of criteria ''locations'' of
                       None \<Rightarrow> payload | Some v \<Rightarrow> payload @ [(''person_locations'', v)])
      in case map_of criteria ''keywords'' of
           None \<Rightarrow> Inr payload
         | Some v \<Rightarrow> bindE (py_join '' '' v) (\<lambda>s. Inr (payload @ [(''q_keywords'', JStr s)])))"

text \<open>Lines 80 to 88: one \<open>Person\<close> from one item of \<open>people\<close>, the keyword arguments
  evaluated in the order written.\<close>

definition apollo_person :: "json \<Rightarrow> exc + person" where
  "apollo_person person_data =
     bindE (py_get person_data ''name'' (JStr [])) (\<lambda>v_name.
     bindE (py_get person_data ''email'' (JStr [])) (\<lambda>v_email.
     bindE (py_get person_data ''phone'' (JStr [])) (\<lambda>v_phone.
     bindE (py_get person_data ''linkedin_url'' (JStr [])) (\<lambda>v_linkedin.
     bindE (py_get person_data ''title'' (JStr [])) (\<lambda>v_title.
     bindE (bindE (py_get person_data ''organization'' (JObj []))
                  (\<lambda>org. py_get org ''name'' (JStr []))) (\<lambda>v_company.
     bindE (py_get person_data ''city'' (JStr [])) (\<lambda>v_city.
       Inr \<lparr>name = v_name, email = v_email, phone = v_phone, linkedin_url = v_linkedin,
            job_title = v_title, company = v_company, location = v_city\<rparr>)))))))"

text \<open>Lines 76 to 91: the loop over \<open>data.get('people', [])\<close>.\<close>

definition apollo_people :: "json \<Rightarrow> exc + person list" where
  "apollo_people data =
     bindE (py_get data ''people'' (JList [])) (\<lambda>v.
     bindE (py_iter v) (mapE apollo_person))"

text \<open>
  The whole method, with the requests it sent. A \<open>RequestException\<close> (transport failure,
  status 400 to 599, undecodable body) is raised again as \<open>Exception("Apollo API error:
  ...")\<close> with the text of the original exception; any other exception passes through.
\<close>

definition search_people_apollo :: "env \<Rightarrow> pydict \<Rightarrow> (exc + person list) \<times> request list" where
  "search_people_apollo env criteria =
     (if \<not> key_set (apollo_api_key env) then
        (Inl (ValueError ''Apollo API key not found. Set APOLLO_API_KEY environment variable.''), [])
      else case apollo_payload criteria of
        Inl e \<Rightarrow> (Inl e, [])
      | Inr payload \<Rightarrow>
          ((case apollo_post env payload of
              NetworkFailure msg \<Rightarrow> Inl (APIError ''Apollo API error'' (ConnectionError msg))
            | Response status text body \<Rightarrow>
                if raises_for_status status then
                  Inl (APIError ''Apollo API error'' (HTTPError status))
                else (case body of
                        None \<Rightarrow> Inl (APIError ''Apollo API error'' JSONDecodeError)
                      | Some data \<Rightarrow> apollo_people data)),
           [Post apollo_url payload]))"

section \<open>\<open>search_people_hunter\<close> (main.py)\<close>

definition hunter_url :: string where
  "hunter_url = ''https://api.hunter.io/v2/domain-search''"

text \<open>Lines 112 to 120: the query parameters; \<open>title\<close> is the argument \<open>job_title\<close>,
  \<open>None\<close> by default.\<close>

definition hunter_params :: "env \<Rightarrow> string \<Rightarrow> json \<Rightarrow> pydict" where
  "hunter_params env domain title =
     (let params = [(''domain'', JStr domain),
                    (''api_key'', (case hunter_api_key env of None \<Rightarrow> JNull | Some k \<Rightarrow> JStr k)),
                    (''limit'', JNum 25)]
      in if py_truthy title
         then params @ [(''type'', JStr ''personal''), (''seniority'', title)]
         else params)"

text \<open>Lines 130 to 136: one \<open>Person\<close> from one item of \<open>data.emails\<close>; \<open>phone\<close> and
  \<open>location\<close> are not passed and keep the defaults of the dataclass.\<close>

definition hunter_person :: "env \<Rightarrow> json \<Rightarrow> json \<Rightarrow> exc + person" where
  "hunter_person env data email_data =
     bindE (py_get email_data ''first_name'' (JStr [])) (\<lambda>v_first.
     bindE (py_get email_data ''last_name'' (JStr [])) (\<lambda>v_last.
     bindE (py_get email_data ''value'' (JStr [])) (\<lambda>v_email.
     bindE (py_get email_data ''position'' (JStr [])) (\<lambda>v_position.
     bindE (bindE (py_get data ''data'' (JObj []))
                  (\<lambda>d. py_get d ''organization'' (JStr []))) (\<lambda>v_company.
     bindE (py_get email_data ''linkedin'' (JStr [])) (\<lambda>v_linkedin.
       Inr \<lparr>name = JStr (strip (py_str (render env) v_first @ '' '' @ py_str (render env) v_last)),
            email = v_email, phone = JStr [], linkedin_url = v_linkedin,
            job_title = v_position, company = v_company, location = JStr []\<rparr>))))))"

definition hunter_people :: "env \<Rightarrow> json \<Rightarrow> exc + person list" where
  "hunter_people env data =
     bindE (bindE (py_get data ''data'' (JObj [])) (\<lambda>d. py_get d ''emails'' (JList []))) (\<lambda>v.
     bindE (py_iter v) (mapE (hunter_person env data)))"

definition search_people_hunter :: "env \<Rightarrow> string \<Rightarrow> json \<Rightarrow> (exc + person list) \<times> request list" where
  "search_people_hunter env domain title =
     (if \<not> key_set (hunter_api_key env) then
        (Inl (ValueError ''Hunter API key not found. Set HUNTER_API_KEY environment variable.''), [])
      else
        (let params = hunter_params env domain title
         in ((case hunter_get env params of
                NetworkFailure msg \<Rightarrow> Inl (APIError ''Hunter API error'' (ConnectionError msg))
              | Response status text body \<Rightarrow>
                  if raises_for_status status then
                    Inl (APIError ''Hunter API error'' (HTTPError status))
                  else (case body of
                          None \<Rightarrow> Inl (APIError ''Hunter API error'' JSONDecodeError)
                        | Some data \<Rightarrow> hunter_people env data)),
             [Get hunter_url params])))"

section \<open>\<open>enrich_with_clado\<close> (main.py)\<close>

text \<open>
  The method assigns to the fields of the \<open>Person\<close> objects it is given, and a list may
  hold the same object more than once. Objects therefore live in a store, and a list of
  people is a list of references into it.
\<close>

type_synonym ref = nat
type_synonym store = "ref \<Rightarrow> person"

definition clado_url :: string where
  "clado_url = ''https://search.clado.ai/api/enrich/contacts''"

text \<open>Lines 168 to 174: the lookup key, or none.\<close>

definition lookup_params :: "person \<Rightarrow> pydict option" where
  "lookup_params p =
     (if py_truthy (linkedin_url p) then Some [(''linkedin_url'', linkedin_url p)]
      else if py_truthy (email p) then Some [(''email'', email p)]
      else None)"

text \<open>Line 184: \<open>data.get('data', [{}])[0].get('contacts', [])\<close>.\<close>

definition clado_contacts :: "json \<Rightarrow> exc + json" where
  "clado_contacts data =
     bindE (bindE (py_get data ''data'' (JList [JObj []])) py_first)
           (\<lambda>d. py_get d ''contacts'' (JList []))"

text \<open>Lines 187 to 191: the loop over the contacts. It assigns as it goes, so when an
  entry raises, the object keeps what the entries before it wrote.\<close>

fun fill_contacts :: "json list \<Rightarrow> person \<Rightarrow> person \<times> exc option" where
  "fill_contacts [] p = (p, None)"
| "fill_contacts (contact # rest) p =
     (case py_item contact ''type'' of
        Inl e \<Rightarrow> (p, Some e)
      | Inr t \<Rightarrow>
          if t = JStr ''email'' \<and> \<not> py_truthy (email p) then
            (case py_item contact ''value'' of
               Inl e \<Rightarrow> (p, Some e)
             | Inr v \<Rightarrow> fill_contacts rest (p\<lparr>email := v\<rparr>))
          else if t = JStr ''phone'' \<and> \<not> py_truthy (phone p) then
            (case py_item contact ''value'' of
               Inl e \<Rightarrow> (p, Some e)
             | Inr v \<Rightarrow> fill_contacts rest (p\<lparr>phone := v\<rparr>))
          else fill_contacts rest p)"

text \<open>Lines 176 to 191 for one object, given what \<open>requests.get\<close> came back with: the
  object afterwards and the exception that reached the handler, if any.\<close>

definition enrich_person :: "http_result \<Rightarrow> person \<Rightarrow> person \<times> exc option" where
  "enrich_person result p =
     (case result of
        NetworkFailure msg \<Rightarrow> (p, Some (ConnectionError msg))
      | Response status text body \<Rightarrow>
          if status = 200 then
            (case body of
               None \<Rightarrow> (p, Some JSONDecodeError)
             | Some data \<Rightarrow>
                 (case bindE (clado_contacts data) py_iter of
                    Inl e \<Rightarrow> (p, Some e)
                  | Inr contacts \<Rightarrow> fill_contacts contacts p))
          else (p, None))"

text \<open>Lines 163 to 200: the loop over the batch from position \<open>i\<close> on. Every path
  through the body, the handler included, appends the object to \<open>enriched_people\<close>.\<close>

fun enrich_loop :: "env \<Rightarrow> nat \<Rightarrow> ref list \<Rightarrow> store \<Rightarrow> ref list \<times> store \<times> request list" where
  "enrich_loop env i [] s = ([], s, [])"
| "enrich_loop env i (r # rs) s =
     (case lookup_params (s r) of
        None \<Rightarrow>
          (let (enriched, s', log) = enrich_loop env (Suc i) rs s
           in (r # enriched, s', log))
      | Some params \<Rightarrow>
          (let (p', raised) = enrich_person (clado_get env i params) (s r);
               (enriched, s', log) = enrich_loop env (Suc i) rs (s(r := p'))
           in (r # enriched, s', Get clado_url params # log)))"

definition enrich_with_clado :: "env \<Rightarrow> ref list \<Rightarrow> store \<Rightarrow> ref list \<times> store \<times> request list" where
  "enrich_with_clado env people s =
     (if \<not> key_set (clado_api_key env) then (people, s, [])
      else enrich_loop env 0 people s)"

section \<open>\<open>search_by_natural_language\<close> (main.py)\<close>

text \<open>Lines 230 to 237: one Hunter search per domain, each in its own \<open>try\<close>.\<close>

fun hunter_loop :: "env \<Rightarrow> string list \<Rightarrow> person list \<Rightarrow> request list \<Rightarrow> person list \<times> request list" where
  "hunter_loop env [] people log = (people, log)"
| "hunter_loop env (domain # domains) people log =
     (if key_set (hunter_api_key env) then
        (let (result, sent) = search_people_hunter env domain JNull
         in case result of
              Inl e \<Rightarrow> hunter_loop env domains people (log @ sent)
            | Inr domain_people \<Rightarrow> hunter_loop env domains (people @ domain_people) (log @ sent))
      else hunter_loop env domains people log)"

text \<open>Lines 223 to 227 and 258 to 262: the Apollo search of a branch, \<open>people\<close> being
  empty before it.\<close>

definition apollo_step :: "env \<Rightarrow> pydict \<Rightarrow> person list \<times> request list" where
  "apollo_step env criteria =
     (if key_set (apollo_api_key env) then
        (let (result, sent) = search_people_apollo env criteria
         in case result of Inl e \<Rightarrow> ([], sent) | Inr found \<Rightarrow> (found, sent))
      else ([], []))"

text \<open>The records a search returns are objects made by that search, each its own; the
  enrichment pass works on them in a store of their own.\<close>

definition blank_person :: person where
  "blank_person = \<lparr>name = JStr [], email = JStr [], phone = JStr [], linkedin_url = JStr [],
                    job_title = JStr [], company = JStr [], location = JStr []\<rparr>"

definition new_objects :: "person list \<Rightarrow> ref list \<times> store" where
  "new_objects people =
     ([0 ..< length people], (\<lambda>r. if r < length people then people ! r else blank_person))"

text \<open>Lines 212 to 262: the branch and its provider calls, up to the enrichment pass.\<close>

definition gather :: "env \<Rightarrow> string \<Rightarrow> person list \<times> request list" where
  "gather env query =
     (case classify query of
        FaangBranch criteria domains \<Rightarrow>
          (let (people, log) = apollo_step env criteria
           in hunter_loop env domains people log)
      | TitleBranch criteria \<Rightarrow> apollo_step env criteria
      | NoBranch \<Rightarrow> ([], []))"

text \<open>The whole method: the records it returns and the requests it sent.\<close>

definition search_by_natural_language :: "env \<Rightarrow> string \<Rightarrow> person list \<times> request list" where
  "search_by_natural_language env query =
     (let (people, log) = gather env query
      in if people \<noteq> [] \<and> key_set (clado_api_key env) then
           (let (refs, s) = new_objects people;
                (enriched, s', sent) = enrich_with_clado env refs s
            in (map s' enriched, log @ sent))
         else (people, log))"

section \<open>The standalone scripts\<close>

text \<open>What \<open>print\<close> wrote: the line \<open>Error: <status> <text>\<close>.\<close>

datatype console = ErrorLine nat string

subsection \<open>\<open>people_search\<close> (apollo_people_search.py)\<close>

record search_args =
  person_titles :: json
  include_similar_titles :: json
  person_locations :: json
  person_seniorities :: json
  organization_locations :: json
  q_organization_domains_list :: json
  contact_email_status :: json
  organization_ids :: json
  organization_num_employees_ranges :: json
  q_keywords :: json
  page :: json
  per_page :: json

definition people_search_url :: string where
  "people_search_url = ''https://api.apollo.io/api/v1/mixed_people/search''"

text \<open>\<open>if v: payload[k] = v\<close>.\<close>

definition add_if :: "string \<Rightarrow> json \<Rightarrow> pydict \<Rightarrow> pydict" where
  "add_if k v payload = (if py_truthy v then payload @ [(k, v)] else payload)"

text \<open>Lines 33 to 55.\<close>

definition people_search_payload :: "search_args \<Rightarrow> pydict" where
  "people_search_payload a =
     (let payload = [(''page'', page a), (''per_page'', per_page a),
                     (''include_similar_titles'', include_similar_titles a)];
          payload = add_if ''person_titles'' (person_titles a) payload;
          payload = add_if ''person_locations'' (person_locations a) payload;
          payload = add_if ''person_seniorities'' (person_seniorities a) payload;
          payload = add_if ''organization_locations'' (organization_locations a) payload;
          payload = add_if ''q_organization_domains_list'' (q_organization_domains_list a) payload;
          payload = add_if ''contact_email_status'' (contact_email_status a) payload;
          payload = add_if ''organization_ids'' (organization_ids a) payload;
          payload = add_if ''organization_num_employees_ranges''
                      (organization_num_employees_ranges a) payload
      in add_if ''q_keywords'' (q_keywords a) payload)"

text \<open>The function with the key \<open>APOLLO_API_KEY\<close> and the provider's answer: what it
  returns or raises, what it printed, what it sent.\<close>

definition people_search ::
  "string option \<Rightarrow> (pydict \<Rightarrow> http_result) \<Rightarrow> search_args
     \<Rightarrow> (exc + json option) \<times> console list \<times> request list" where
  "people_search api_key post a =
     (if \<not> key_set api_key then
        (Inl (ValueError ''APOLLO_API_KEY environment variable not set.''), [], [])
      else
        (let payload = people_search_payload a;
             sent = [Post people_search_url payload]
         in case post payload of
              NetworkFailure msg \<Rightarrow> (Inl (ConnectionError msg), [], sent)
            | Response status text body \<Rightarrow>
                if status \<noteq> 200 then (Inr None, [ErrorLine status text], sent)
                else (case body of
                        None \<Rightarrow> (Inl JSONDecodeError, [], sent)
                      | Some data \<Rightarrow> (Inr (Some data), [], sent))))"

subsection \<open>\<open>domain_search\<close> (hunter_domain_search.py)\<close>

definition domain_search ::
  "string option \<Rightarrow> (pydict \<Rightarrow> http_result) \<Rightarrow> json \<Rightarrow> json \<Rightarrow> json
     \<Rightarrow> (exc + json option) \<times> console list \<times> request list" where
  "domain_search api_key get domain title limit =
     (let params = [(''domain'', domain),
                    (''api_key'', (case api_key of None \<Rightarrow> JNull | Some k \<Rightarrow> JStr k)),
                    (''limit'', limit)];
          params = (if py_truthy title then params @ [(''position'', title)] else params);
          sent = [Get hunter_url params]
      in case get params of
           NetworkFailure msg \<Rightarrow> (Inl (ConnectionError msg), [], sent)
         | Response status text body \<Rightarrow>
             if status \<noteq> 200 then (Inr None, [ErrorLine status text], sent)
             else (case body of
                     None \<Rightarrow> (Inl JSONDecodeError, [], sent)
                   | Some data \<Rightarrow> (Inr (Some data), [], sent)))"

section \<open>The classifier as the specification words it\<close>

text \<open>
  The policy of the specification, written as the table it describes: an ordered list of
  substrings with the job titles of each, searched for the first entry one of whose
  substrings occurs in the lower-cased query, after the test for \<open>faang\<close>.
\<close>

definition title_table :: "(string list \<times> string list) list" where
  "title_table =
     [([''engineer'', ''developer''], [''Software Engineer'', ''Senior Software Engineer'', ''Developer'']),
      ([''manager''], [''Engineering Manager'', ''Product Manager'', ''Manager'']),
      ([''director''], [''Director'', ''Engineering Director'']),
      ([''ceo''], [''CEO'', ''Chief Executive Officer'']),
      ([''cto''], [''CTO'', ''Chief Technology Officer''])]"

fun first_match :: "string \<Rightarrow> (string list \<times> string list) list \<Rightarrow> string list option" where
  "first_match q [] = None"
| "first_match q ((subs, titles) # table) =
     (if list_ex (\<lambda>sub. contains sub q) subs then Some titles else first_match q table)"

definition classify_spec :: "string \<Rightarrow> branch" where
  "classify_spec query =
     (let q = lower query
      in if contains ''faang'' q then
           FaangBranch [(''company_names'', str_list [''Meta'', ''Apple'', ''Amazon'', ''Netflix'', ''Google'']),
                        (''limit'', JNum 50)]
                       [''meta.com'', ''apple.com'', ''amazon.com'', ''netflix.com'', ''google.com'']
         else case first_match q title_table of
                Some titles \<Rightarrow> TitleBranch [(''job_titles'', str_list titles), (''limit'', JNum 25)]
              | None \<Rightarrow> NoBranch)"

section \<open>The aggregation as the specification words it\<close>

text \<open>What one provider call contributes: its records, and nothing when it raises (a
  missing key raises before any request is sent).\<close>

definition apollo_records :: "env \<Rightarrow> pydict \<Rightarrow> person list" where
  "apollo_records env criteria =
     (case fst (search_people_apollo env criteria) of Inl e \<Rightarrow> [] | Inr found \<Rightarrow> found)"

definition hunter_records :: "env \<Rightarrow> string \<Rightarrow> person list" where
  "hunter_records env domain =
     (case fst (search_people_hunter env domain JNull) of Inl e \<Rightarrow> [] | Inr found \<Rightarrow> found)"

text \<open>
  The orchestration of the specification: in the FAANG branch Apollo's records first, then
  Hunter's records domain by domain in the order of the list; in the job-title branch
  Apollo's records alone; otherwise nothing.
\<close>

definition found_spec :: "env \<Rightarrow> string \<Rightarrow> person list" where
  "found_spec env query =
     (case classify_spec query of
        FaangBranch criteria domains \<Rightarrow>
          apollo_records env criteria @ concat (map (hunter_records env) domains)
      | TitleBranch criteria \<Rightarrow> apollo_records env criteria
      | NoBranch \<Rightarrow> [])"

section \<open>Sample data\<close>

text \<open>An environment with all three keys set, whose providers answer every request with
  status 200 and an empty JSON object.\<close>

definition quiet_env :: env where
  "quiet_env = \<lparr>apollo_api_key = Some ''k1'', hunter_api_key = Some ''k2'',
                 clado_api_key = Some ''k3'',
                 apollo_post = (\<lambda>payload. Response 200 ''{}'' (Some (JObj []))),
                 hunter_get = (\<lambda>params. Response 200 ''{}'' (Some (JObj []))),
                 clado_get = (\<lambda>i params. Response 200 ''{}'' (Some (JObj []))),
                 render = (\<lambda>v. ''?'')\<rparr>"

text \<open>A Hunter answer with one address, and an Apollo answer with two people, the first
  with an explicit null for the email address.\<close>

definition sample_hunter_body :: json where
  "sample_hunter_body =
     JObj [(''data'', JObj [(''organization'', JStr ''Acme''),
                            (''emails'', JList [JObj [(''first_name'', JStr ''Ada''),
                                                      (''last_name'', JStr ''Lovelace''),
                                                      (''value'', JStr ''ada@acme.com'')]])])]"

definition sample_apollo_body :: json where
  "sample_apollo_body =
     JObj [(''people'', JList [JObj [(''name'', JStr ''Bob''), (''email'', JNull),
                                     (''linkedin_url'', JStr ''li/bob'')],
                               JObj [(''name'', JStr ''Cy''), (''email'', JStr ''cy@acme.com''),
                                     (''organization'', JObj [(''name'', JStr ''Acme'')])]])]"

text \<open>An environment whose search providers give these answers; the enrichment provider
  fails for the first record of a batch and names an address and a number for the
  others.\<close>

definition sample_clado_body :: json where
  "sample_clado_body =
     JObj [(''data'', JList [JObj [(''contacts'',
              JList [JObj [(''type'', JStr ''email''), (''value'', JStr ''new@acme.com'')],
                     JObj [(''type'', JStr ''phone''), (''value'', JStr ''555-0100'')]])]])]"

definition sample_env :: env where
  "sample_env = \<lparr>apollo_api_key = Some ''k1'', hunter_api_key = Some ''k2'',
                  clado_api_key = Some ''k3'',
                  apollo_post = (\<lambda>payload. Response 200 ''...'' (Some sample_apollo_body)),
                  hunter_get = (\<lambda>params. Response 200 ''...'' (Some sample_hunter_body)),
                  clado_get = (\<lambda>i params. if i = 0 then NetworkFailure ''timed out''
                                             else Response 200 ''...'' (Some sample_clado_body)),
                  render = (\<lambda>v. ''?'')\<rparr>"

text \<open>The shape the Apollo normalizer relies on: the item is an object, and its
  \<open>organization\<close>, when the key is there, is an object too.\<close>

fun is_obj :: "json \<Rightarrow> bool" where
  "is_obj (JObj d) = True"
| "is_obj _ = False"

fun person_shaped :: "json \<Rightarrow> bool" where
  "person_shaped (JObj d) = (case map_of d ''organization'' of None \<Rightarrow> True | Some org \<Rightarrow> is_obj org)"
| "person_shaped _ = False"

text \<open>The keys the normalizers copy, each with the field it goes to.\<close>

definition apollo_fields :: "(string \<times> (person \<Rightarrow> json)) list" where
  "apollo_fields = [(''name'', name), (''email'', email), (''phone'', phone),
                    (''linkedin_url'', linkedin_url), (''title'', job_title), (''city'', location)]"

definition hunter_fields :: "(string \<times> (person \<Rightarrow> json)) list" where
  "hunter_fields = [(''value'', email), (''position'', job_title), (''linkedin'', linkedin_url)]"

section \<open>Vocabulary of the enrichment claims\<close>

text \<open>The contact entries the loop of \<open>enrich_with_clado\<close> runs over for a given
  answer of the provider: none unless the status is 200 and the contact list can be read
  from the body.\<close>

fun contacts_of :: "http_result \<Rightarrow> json list" where
  "contacts_of (Response status raw (Some data)) =
     (if status = 200
      then (case bindE (clado_contacts data) py_iter of Inl e \<Rightarrow> [] | Inr contacts \<Rightarrow> contacts)
      else [])"
| "contacts_of _ = []"

text \<open>Some entry of the given type carries the value \<open>v\<close>.\<close>

definition offers :: "string \<Rightarrow> json \<Rightarrow> json list \<Rightarrow> bool" where
  "offers kind v contacts =
     list_ex (\<lambda>contact. py_item contact ''type'' = Inr (JStr kind) \<and>
                         py_item contact ''value'' = Inr v) contacts"

text \<open>A lookup that failed before any contact entry was looked at: the transport raised,
  the status is not 200, the body is not JSON, or the contact list cannot be read from
  it.\<close>

fun lookup_failed :: "http_result \<Rightarrow> bool" where
  "lookup_failed (NetworkFailure msg) = True"
| "lookup_failed (Response status raw None) = True"
| "lookup_failed (Response status raw (Some data)) =
     (status \<noteq> 200 \<or> (case bindE (clado_contacts data) py_iter of Inl e \<Rightarrow> True | Inr contacts \<Rightarrow> False))"

text \<open>An answer whose second contact entry has no \<open>type\<close>, and a person with a LinkedIn
  address and no email address.\<close>

definition half_broken_body :: json where
  "half_broken_body =
     JObj [(''data'', JList [JObj [(''contacts'',
              JList [JObj [(''type'', JStr ''email''), (''value'', JStr ''new@acme.com'')],
                     JObj []])]])]"

definition half_broken_env :: env where
  "half_broken_env =
     sample_env\<lparr>clado_get := (\<lambda>i params. Response 200 ''...'' (Some half_broken_body))\<rparr>"

definition dana :: person where
  "dana = \<lparr>name = JStr ''Dana'', email = JStr [], phone = JStr [], linkedin_url = JStr ''li/dana'',
           job_title = JStr [], company = JStr [], location = JStr []\<rparr>"

text \<open>A store with that person alone, and one with two objects: at reference 0 the
  person above, elsewhere a person known by an email address only.\<close>

definition cy :: person where
  "cy = \<lparr>name = JStr ''Cy'', email = JStr ''cy@acme.com'', phone = JStr [], linkedin_url = JStr [],
         job_title = JStr [], company = JStr ''Acme'', location = JStr []\<rparr>"

definition dana_store :: store where
  "dana_store r = dana"

definition sample_store :: store where
  "sample_store r = (if r = 0 then dana else cy)"

text \<open>What enrichment leaves of an object: every field but email and phone, and these two
  when they were not empty.\<close>

definition kept :: "person \<Rightarrow> person \<Rightarrow> bool" where
  "kept p p' \<longleftrightarrow>
     name p' = name p \<and> linkedin_url p' = linkedin_url p \<and> job_title p' = job_title p \<and>
     company p' = company p \<and> location p' = location p \<and>
     (py_truthy (email p) \<longrightarrow> email p' = email p) \<and>
     (py_truthy (phone p) \<longrightarrow> phone p' = phone p)"

text \<open>The records of the sample answers.\<close>

definition ada :: person where
  "ada = \<lparr>name = JStr ''Ada Lovelace'', email = JStr ''ada@acme.com'', phone = JStr [],
           linkedin_url = JStr [], job_title = JStr [], company = JStr ''Acme'',
           location = JStr []\<rparr>"

definition bob :: person where
  "bob = \<lparr>name = JStr ''Bob'', email = JNull, phone = JStr [], linkedin_url = JStr ''li/bob'',
           job_title = JStr [], company = JStr [], location = JStr []\<rparr>"

text \<open>A store in which every object is that record, whose email is \<open>None\<close>.\<close>

definition bob_store :: store where
  "bob_store r = bob"

text \<open>An environment without enrichment key in which Apollo cannot be reached and Hunter
  answers the lookup of \<open>apple.com\<close> with status 500.\<close>

definition flaky_env :: env where
  "flaky_env =
     sample_env\<lparr>clado_api_key := None,
                 apollo_post := (\<lambda>payload. NetworkFailure ''refused''),
                 hunter_get := (\<lambda>params. if map_of params ''domain'' = Some (JStr ''apple.com'')
                                          then Response 500 ''unavailable'' None
                                          else Response 200 ''...'' (Some sample_hunter_body))\<rparr>"

section \<open>Vocabulary of the request claims\<close>

text \<open>The criteria keys \<open>search_people_apollo\<close> passes on unchanged, each with its payload
  key, and the filters of \<open>people_search\<close>, each with its payload key.\<close>

definition apollo_filter_keys :: "(string \<times> string) list" where
  "apollo_filter_keys = [(''job_titles'', ''person_titles''),
                         (''company_names'', ''organization_names''),
                         (''locations'', ''person_locations'')]"

definition people_search_filters :: "(string \<times> (search_args \<Rightarrow> json)) list" where
  "people_search_filters =
     [(''person_titles'', person_titles), (''person_locations'', person_locations),
      (''person_seniorities'', person_seniorities),
      (''organization_locations'', organization_locations),
      (''q_organization_domains_list'', q_organization_domains_list),
      (''contact_email_status'', contact_email_status),
      (''organization_ids'', organization_ids),
      (''organization_num_employees_ranges'', organization_num_employees_ranges),
      (''q_keywords'', q_keywords)]"

text \<open>The query parameters \<open>domain_search\<close> sends (lines 34 to 40 of
  hunter_domain_search.py), as a function of its key and arguments.\<close>

definition domain_search_params :: "string option \<Rightarrow> json \<Rightarrow> json \<Rightarrow> json \<Rightarrow> pydict" where
  "domain_search_params api_key domain title limit =
     [(''domain'', domain),
      (''api_key'', (case api_key of None \<Rightarrow> JNull | Some k \<Rightarrow> JStr k)),
      (''limit'', limit)]
     @ (if py_truthy title then [(''position'', title)] else [])"

text \<open>The arguments of \<open>people_search\<close> when only job titles are given, the others at
  their defaults.\<close>

definition titles_only :: search_args where
  "titles_only = \<lparr>person_titles = JList [JStr ''CTO''], include_similar_titles = JBool True,
                   person_locations = JNull, person_seniorities = JNull,
                   organization_locations = JNull, q_organization_domains_list = JNull,
                   contact_email_status = JNull, organization_ids = JNull,
                   organization_num_employees_ranges = JNull, q_keywords = JNull,
                   page = JNum 1, per_page = JNum 10\<rparr>"

text \<open>Criteria whose job titles and keywords are present and empty.\<close>

definition empty_fields :: pydict where
  "empty_fields = [(''job_titles'', JList []), (''keywords'', JList [])]"

text \<open>Providers that answer 404 with a text, 200 with an empty object, 300 with an empty
  object, and 500 with one text or another.\<close>

definition not_found :: "pydict \<Rightarrow> http_result" where
  "not_found request_data = Response 404 ''no such route'' None"

definition found_nothing :: "pydict \<Rightarrow> http_result" where
  "found_nothing request_data = Response 200 ''{}'' (Some (JObj []))"

definition multiple_choices_env :: env where
  "multiple_choices_env =
     sample_env\<lparr>apollo_post := (\<lambda>payload. Response 300 ''{}'' (Some (JObj [])))\<rparr>"

definition server_error_env :: "string \<Rightarrow> env" where
  "server_error_env raw = sample_env\<lparr>apollo_post := (\<lambda>payload. Response 500 raw None)\<rparr>"

section \<open>The query classifier\<close>

text \<open>\<open>contains\<close> is the substring relation of the library.\<close>

lemma contains_sublist: "contains sub s = sublist sub s"
  by (induction s) (auto simp: sublist_Cons_right)

text \<open>The three queries the specification lists.\<close>

lemma classify_examples:
  "classify ''People working in FAANG'' =
     FaangBranch [(''company_names'', JList [JStr ''Meta'', JStr ''Apple'', JStr ''Amazon'',
                                            JStr ''Netflix'', JStr ''Google'']),
                  (''limit'', JNum 50)]
       [''meta.com'', ''apple.com'', ''amazon.com'', ''netflix.com'', ''google.com'']"
  "classify ''Software engineers at Google'' =
     TitleBranch [(''job_titles'', JList [JStr ''Software Engineer'',
                                         JStr ''Senior Software Engineer'', JStr ''Developer'']),
                  (''limit'', JNum 25)]"
  "classify ''something unrelated'' = NoBranch"
  by code_simp+

text \<open>The branch selection of the code and the table of the specification agree.\<close>

lemma classify_table: "classify query = classify_spec query"
  by (auto simp: classify_def classify_spec_def title_table_def Let_def
        faang_companies_def faang_domains_def)

text \<open>
  Claim C1. For every query, the classifier lower-cases it and follows the policy table:
  with the substring \<open>faang\<close> it gives the criteria of the five companies with limit 50 and
  the five domains; otherwise the first entry of the table (engineer or developer, then
  manager, director, ceo, cto) one of whose substrings occurs gives its job titles with
  limit 25; and when nothing matches there are no criteria, the search sends no request
  and returns no record.
\<close>

theorem classify_follows_policy:
  "classify query = classify_spec query \<and>
   (classify query = NoBranch \<longrightarrow> search_by_natural_language env query = ([], []))"
  by (simp add: classify_table [symmetric] search_by_natural_language_def gather_def)

theorem classify_follows_policy_witness:
  "classify ''something unrelated'' = NoBranch \<and>
   search_by_natural_language quiet_env ''something unrelated'' = ([], [])"
proof -
  have h: "classify ''something unrelated'' = NoBranch" by code_simp
  show ?thesis
    using classify_follows_policy [of "''something unrelated''" quiet_env] h by simp
qed

section \<open>Sequencing and iteration that may raise\<close>

lemma bindE_Inr: "bindE (Inr x) f = f x"
  by (simp add: bindE_def)

lemma bindE_Inl: "bindE (Inl e) f = Inl e"
  by (simp add: bindE_def)

lemma bindE_Inr_iff: "bindE m f = Inr y \<longleftrightarrow> (\<exists>x. m = Inr x \<and> f x = Inr y)"
  by (cases m) (auto simp: bindE_def)

text \<open>A loop that builds one result per item succeeds exactly when every item does, and
  then pairs items and results in order.\<close>

lemma mapE_Inr_iff:
  "mapE f xs = Inr ys \<longleftrightarrow> list_all2 (\<lambda>x y. f x = Inr y) xs ys"
proof (induction xs arbitrary: ys)
  case Nil
  then show ?case by auto
next
  case (Cons x xs)
  then show ?case
    by (cases ys) (auto simp: bindE_Inr_iff list_all2_Cons1)
qed

lemma mapE_total:
  "\<forall>x \<in> set xs. \<exists>y. f x = Inr y \<Longrightarrow> \<exists>ys. mapE f xs = Inr ys"
proof (induction xs)
  case Nil
  then show ?case by simp
next
  case (Cons x xs)
  then obtain y ys where "f x = Inr y" "mapE f xs = Inr ys" by auto
  then show ?case by (simp add: bindE_def)
qed

section \<open>The normalizers\<close>

lemma strip_blank: "strip '' '' = []"
  by (simp add: strip_def is_space_def)

lemma apollo_person_fields:
  assumes "apollo_person (JObj a) = Inr p"
  shows "name p = dict_get a ''name'' (JStr [])"
    and "email p = dict_get a ''email'' (JStr [])"
    and "phone p = dict_get a ''phone'' (JStr [])"
    and "linkedin_url p = dict_get a ''linkedin_url'' (JStr [])"
    and "job_title p = dict_get a ''title'' (JStr [])"
    and "location p = dict_get a ''city'' (JStr [])"
    and "py_get (dict_get a ''organization'' (JObj [])) ''name'' (JStr []) = Inr (company p)"
  using assms by (auto simp: apollo_person_def bindE_Inr_iff)

lemma hunter_person_fields:
  assumes "hunter_person env data (JObj h) = Inr p"
  shows "name p = JStr (strip (py_str (render env) (dict_get h ''first_name'' (JStr [])) @ '' '' @
                               py_str (render env) (dict_get h ''last_name'' (JStr []))))"
    and "email p = dict_get h ''value'' (JStr [])"
    and "job_title p = dict_get h ''position'' (JStr [])"
    and "linkedin_url p = dict_get h ''linkedin'' (JStr [])"
    and "phone p = JStr []"
    and "location p = JStr []"
    and "bindE (py_get data ''data'' (JObj [])) (\<lambda>d. py_get d ''organization'' (JStr []))
           = Inr (company p)"
  using assms by (auto simp: hunter_person_def bindE_Inr_iff)

lemma organization_is_obj:
  "person_shaped (JObj d) \<Longrightarrow> \<exists>od. dict_get d ''organization'' (JObj []) = JObj od"
  by (cases "map_of d ''organization''"; cases "the (map_of d ''organization'')")
     (simp_all add: dict_get_def)

lemma apollo_person_shaped:
  "person_shaped item \<Longrightarrow> \<exists>p. apollo_person item = Inr p"
proof (cases item)
  case (JObj d)
  assume "person_shaped item"
  with JObj obtain od where "dict_get d ''organization'' (JObj []) = JObj od"
    using organization_is_obj by blast
  with JObj show ?thesis
    by (simp add: apollo_person_def bindE_Inr)
qed simp_all

lemma apollo_people_shaped:
  assumes "dict_get d ''people'' (JList []) = JList items"
      and "\<forall>item \<in> set items. person_shaped item"
  shows "\<exists>people. apollo_people (JObj d) = Inr people \<and> length people = length items \<and>
           (\<forall>i < length items. apollo_person (items ! i) = Inr (people ! i))"
proof -
  from assms(2) have "\<forall>item \<in> set items. \<exists>p. apollo_person item = Inr p"
    by (simp add: apollo_person_shaped)
  then obtain people where p: "mapE apollo_person items = Inr people"
    using mapE_total by blast
  then have "list_all2 (\<lambda>x y. apollo_person x = Inr y) items people"
    by (simp add: mapE_Inr_iff)
  then have "length people = length items \<and>
             (\<forall>i < length items. apollo_person (items ! i) = Inr (people ! i))"
    by (auto simp: list_all2_conv_all_nth)
  moreover have "apollo_people (JObj d) = Inr people"
    using assms(1) p by (simp add: apollo_people_def bindE_def)
  ultimately show ?thesis by blast
qed

lemma sample_apollo_search:
  "search_people_apollo sample_env [] =
     (Inr [\<lparr>name = JStr ''Bob'', email = JNull, phone = JStr [], linkedin_url = JStr ''li/bob'',
            job_title = JStr [], company = JStr [], location = JStr []\<rparr>,
           \<lparr>name = JStr ''Cy'', email = JStr ''cy@acme.com'', phone = JStr [],
            linkedin_url = JStr [], job_title = JStr [], company = JStr ''Acme'',
            location = JStr []\<rparr>],
      [Post apollo_url [(''page'', JNum 1), (''per_page'', JNum 25)]])"
  by code_simp

lemma sample_hunter_search:
  "fst (search_people_hunter sample_env ''acme.com'' JNull) =
     Inr [\<lparr>name = JStr ''Ada Lovelace'', email = JStr ''ada@acme.com'', phone = JStr [],
           linkedin_url = JStr [], job_title = JStr [], company = JStr ''Acme'',
           location = JStr []\<rparr>]"
  by code_simp

text \<open>
  Claim C7, as amended. When the Apollo client gets a response that does not raise, whose
  body is an object with a list of N items under \<open>people\<close>, each item an object whose
  \<open>organization\<close> is absent or an object, it returns exactly N records, the record at
  each position built from the item at that position, whatever fields are empty.
\<close>

theorem apollo_one_record_per_item:
  assumes "key_set (apollo_api_key env)"
      and "apollo_payload criteria = Inr payload"
      and "apollo_post env payload = Response status raw (Some (JObj d))"
      and "\<not> raises_for_status status"
      and "dict_get d ''people'' (JList []) = JList items"
      and "\<forall>item \<in> set items. person_shaped item"
  shows "\<exists>people. fst (search_people_apollo env criteria) = Inr people \<and>
           length people = length items \<and>
           (\<forall>i < length items. apollo_person (items ! i) = Inr (people ! i))"
proof -
  have "fst (search_people_apollo env criteria) = apollo_people (JObj d)"
    using assms(1-4) by (simp add: search_people_apollo_def)
  then show ?thesis
    using apollo_people_shaped [OF assms(5,6)] by simp
qed

theorem apollo_one_record_per_item_witness:
  "\<exists>people. fst (search_people_apollo sample_env []) = Inr people \<and> length people = 2"
proof -
  have "\<exists>people. fst (search_people_apollo sample_env []) = Inr people \<and>
          length people = length [JObj [(''name'', JStr ''Bob''), (''email'', JNull),
                                        (''linkedin_url'', JStr ''li/bob'')],
                                  JObj [(''name'', JStr ''Cy''), (''email'', JStr ''cy@acme.com''),
                                        (''organization'', JObj [(''name'', JStr ''Acme'')])]] \<and>
          (\<forall>i < length [JObj [(''name'', JStr ''Bob''), (''email'', JNull),
                                        (''linkedin_url'', JStr ''li/bob'')],
                                  JObj [(''name'', JStr ''Cy''), (''email'', JStr ''cy@acme.com''),
                                        (''organization'', JObj [(''name'', JStr ''Acme'')])]].
              apollo_person ([JObj [(''name'', JStr ''Bob''), (''email'', JNull),
                                        (''linkedin_url'', JStr ''li/bob'')],
                                  JObj [(''name'', JStr ''Cy''), (''email'', JStr ''cy@acme.com''),
                                        (''organization'', JObj [(''name'', JStr ''Acme'')])]] ! i)
                = Inr (people ! i))"
    by (rule apollo_one_record_per_item
          [where payload = "[(''page'', JNum 1), (''per_page'', JNum 25)]"
             and status = 200 and raw = "''...''"
             and d = "[(''people'', JList [JObj [(''name'', JStr ''Bob''), (''email'', JNull),
                                                (''linkedin_url'', JStr ''li/bob'')],
                                          JObj [(''name'', JStr ''Cy''), (''email'', JStr ''cy@acme.com''),
                                                (''organization'', JObj [(''name'', JStr ''Acme'')])]])]"])
       (simp_all add: sample_env_def sample_apollo_body_def key_set_def apollo_payload_def
          dict_get_def raises_for_status_def)
  then show ?thesis by auto
qed

text \<open>A list of one item whose \<open>organization\<close> is an explicit null: the normalizer
  raises, and no record comes back.\<close>

theorem apollo_null_organization_raises:
  "apollo_people (JObj [(''people'', JList [JObj [(''name'', JStr ''Ann''),
                                                  (''organization'', JNull)]])])
     = Inl AttributeError"
  by code_simp

text \<open>
  Claim C8, as amended. In every record a normalizer builds, a field whose key the provider
  omits is the empty string, and a field whose key the provider supplies holds the
  supplied value as it is, an explicit null included (it arrives as \<open>None\<close>). The name of
  a Hunter record is always a string, its phone and location always the empty string.
\<close>

theorem normalized_fields_copied_or_defaulted:
  "(apollo_person (JObj a) = Inr pa \<longrightarrow>
      (\<forall>(k, field) \<in> set apollo_fields.
          field pa = (case map_of a k of None \<Rightarrow> JStr [] | Some v \<Rightarrow> v)) \<and>
      (map_of a ''organization'' = None \<longrightarrow> company pa = JStr []) \<and>
      (\<forall>org. map_of a ''organization'' = Some (JObj org) \<longrightarrow>
          company pa = (case map_of org ''name'' of None \<Rightarrow> JStr [] | Some v \<Rightarrow> v))) \<and>
   (hunter_person env (JObj body) (JObj h) = Inr ph \<longrightarrow>
      (\<forall>(k, field) \<in> set hunter_fields.
          field ph = (case map_of h k of None \<Rightarrow> JStr [] | Some v \<Rightarrow> v)) \<and>
      (map_of h ''first_name'' = None \<and> map_of h ''last_name'' = None \<longrightarrow> name ph = JStr []) \<and>
      (\<exists>s. name ph = JStr s) \<and> phone ph = JStr [] \<and> location ph = JStr [] \<and>
      (map_of body ''data'' = None \<longrightarrow> company ph = JStr []) \<and>
      (\<forall>d. map_of body ''data'' = Some (JObj d) \<longrightarrow>
          company ph = (case map_of d ''organization'' of None \<Rightarrow> JStr [] | Some v \<Rightarrow> v)))"
proof (intro conjI impI)
  assume a: "apollo_person (JObj a) = Inr pa"
  show "\<forall>(k, field) \<in> set apollo_fields.
          field pa = (case map_of a k of None \<Rightarrow> JStr [] | Some v \<Rightarrow> v)"
    using apollo_person_fields(1-6) [OF a] by (simp add: apollo_fields_def dict_get_def)
  show "company pa = JStr []" if "map_of a ''organization'' = None"
    using apollo_person_fields(7) [OF a] that by (simp add: dict_get_def)
  show "\<forall>org. map_of a ''organization'' = Some (JObj org) \<longrightarrow>
          company pa = (case map_of org ''name'' of None \<Rightarrow> JStr [] | Some v \<Rightarrow> v)"
    using apollo_person_fields(7) [OF a] by (auto simp: dict_get_def)
next
  assume h: "hunter_person env (JObj body) (JObj h) = Inr ph"
  show "\<forall>(k, field) \<in> set hunter_fields.
          field ph = (case map_of h k of None \<Rightarrow> JStr [] | Some v \<Rightarrow> v)"
    using hunter_person_fields(2-4) [OF h] by (simp add: hunter_fields_def dict_get_def)
  show "name ph = JStr []" if "map_of h ''first_name'' = None \<and> map_of h ''last_name'' = None"
    using hunter_person_fields(1) [OF h] that by (simp add: dict_get_def strip_blank)
  show "\<exists>s. name ph = JStr s" using hunter_person_fields(1) [OF h] by blast
  show "phone ph = JStr []" using hunter_person_fields(5) [OF h] .
  show "location ph = JStr []" using hunter_person_fields(6) [OF h] .
  show "company ph = JStr []" if "map_of body ''data'' = None"
    using hunter_person_fields(7) [OF h] that by (simp add: dict_get_def bindE_Inr)
  show "\<forall>d. map_of body ''data'' = Some (JObj d) \<longrightarrow>
          company ph = (case map_of d ''organization'' of None \<Rightarrow> JStr [] | Some v \<Rightarrow> v)"
    using hunter_person_fields(7) [OF h] by (auto simp: dict_get_def bindE_Inr)
qed

theorem normalized_fields_copied_or_defaulted_witness:
  "apollo_person (JObj [(''name'', JStr ''Bob''), (''email'', JNull)]) =
     Inr \<lparr>name = JStr ''Bob'', email = JNull, phone = JStr [], linkedin_url = JStr [],
          job_title = JStr [], company = JStr [], location = JStr []\<rparr> \<and>
   hunter_person sample_env (JObj [(''data'', JObj [(''organization'', JStr ''Acme'')])])
       (JObj [(''value'', JStr ''ada@acme.com'')]) =
     Inr \<lparr>name = JStr [], email = JStr ''ada@acme.com'', phone = JStr [],
          linkedin_url = JStr [], job_title = JStr [], company = JStr ''Acme'',
          location = JStr []\<rparr> \<and>
   set apollo_fields \<noteq> {} \<and> set hunter_fields \<noteq> {}"
proof -
  have a: "apollo_person (JObj [(''name'', JStr ''Bob''), (''email'', JNull)]) =
     Inr \<lparr>name = JStr ''Bob'', email = JNull, phone = JStr [], linkedin_url = JStr [],
          job_title = JStr [], company = JStr [], location = JStr []\<rparr>"
    by code_simp
  have h: "hunter_person sample_env (JObj [(''data'', JObj [(''organization'', JStr ''Acme'')])])
       (JObj [(''value'', JStr ''ada@acme.com'')]) =
     Inr \<lparr>name = JStr [], email = JStr ''ada@acme.com'', phone = JStr [],
          linkedin_url = JStr [], job_title = JStr [], company = JStr ''Acme'',
          location = JStr []\<rparr>"
    by code_simp
  show ?thesis
    using a h normalized_fields_copied_or_defaulted
      [of "[(''name'', JStr ''Bob''), (''email'', JNull)]"
          "\<lparr>name = JStr ''Bob'', email = JNull, phone = JStr [], linkedin_url = JStr [],
            job_title = JStr [], company = JStr [], location = JStr []\<rparr>"
          sample_env "[(''data'', JObj [(''organization'', JStr ''Acme'')])]"
          "[(''value'', JStr ''ada@acme.com'')]"
          "\<lparr>name = JStr [], email = JStr ''ada@acme.com'', phone = JStr [],
            linkedin_url = JStr [], job_title = JStr [], company = JStr ''Acme'',
            location = JStr []\<rparr>"]
    by (simp add: apollo_fields_def hunter_fields_def)
qed

text \<open>An item with an explicit null for \<open>email\<close>: the record's email is \<open>None\<close>, not the
  empty string.\<close>

theorem apollo_person_explicit_null:
  "email (case apollo_person (JObj [(''name'', JStr ''Bob''), (''email'', JNull)]) of
            Inr p \<Rightarrow> p | Inl e \<Rightarrow> blank_person) = JNull"
  by code_simp

text \<open>
  Claim C10. Every record the Hunter search returns has the empty string for phone and for
  location: the Hunter normalizer never sets these two fields.
\<close>

theorem hunter_records_without_phone_and_location:
  "fst (search_people_hunter env domain title) = Inr people \<Longrightarrow> p \<in> set people \<Longrightarrow>
   phone p = JStr [] \<and> location p = JStr []"
proof -
  assume a: "fst (search_people_hunter env domain title) = Inr people" and b: "p \<in> set people"
  from a obtain data where "hunter_people env data = Inr people"
    by (auto simp: search_people_hunter_def Let_def
             split: if_splits http_result.splits option.splits)
  then obtain items where "list_all2 (\<lambda>x y. hunter_person env data x = Inr y) items people"
    by (auto simp: hunter_people_def bindE_Inr_iff mapE_Inr_iff)
  with b obtain item where "hunter_person env data item = Inr p"
    by (auto simp: list_all2_conv_all_nth in_set_conv_nth)
  then show ?thesis
    by (auto simp: hunter_person_def bindE_Inr_iff)
qed

theorem hunter_records_without_phone_and_location_witness:
  "fst (search_people_hunter sample_env ''acme.com'' JNull) =
     Inr [\<lparr>name = JStr ''Ada Lovelace'', email = JStr ''ada@acme.com'', phone = JStr [],
           linkedin_url = JStr [], job_title = JStr [], company = JStr ''Acme'',
           location = JStr []\<rparr>] \<and>
   phone \<lparr>name = JStr ''Ada Lovelace'', email = JStr ''ada@acme.com'', phone = JStr [],
           linkedin_url = JStr [], job_title = JStr [], company = JStr ''Acme'',
           location = JStr []\<rparr> = JStr []"
  using hunter_records_without_phone_and_location [OF sample_hunter_search, of
      "\<lparr>name = JStr ''Ada Lovelace'', email = JStr ''ada@acme.com'', phone = JStr [],
           linkedin_url = JStr [], job_title = JStr [], company = JStr ''Acme'',
           location = JStr []\<rparr>"] sample_hunter_search
  by simp

section \<open>Enrichment\<close>

subsection \<open>One object\<close>

lemma fill_contacts_other_fields:
  "fill_contacts cs p = (p', e) \<Longrightarrow>
     name p' = name p \<and> linkedin_url p' = linkedin_url p \<and> job_title p' = job_title p \<and>
     company p' = company p \<and> location p' = location p"
  by (induction cs arbitrary: p) (auto split: sum.splits if_splits)

lemma fill_contacts_email:
  "fill_contacts cs p = (p', e) \<Longrightarrow> py_truthy (email p) \<Longrightarrow> email p' = email p"
  by (induction cs arbitrary: p) (auto split: sum.splits if_splits)

lemma fill_contacts_phone:
  "fill_contacts cs p = (p', e) \<Longrightarrow> py_truthy (phone p) \<Longrightarrow> phone p' = phone p"
  by (induction cs arbitrary: p) (auto split: sum.splits if_splits)

lemma fill_contacts_email_source:
  "fill_contacts cs p = (p', e) \<Longrightarrow> email p' \<noteq> email p \<Longrightarrow> offers ''email'' (email p') cs"
proof (induction cs arbitrary: p)
  case Nil
  then show ?case by simp
next
  case (Cons c cs)
  then show ?case
    by (fastforce simp: offers_def split: sum.splits if_splits)
qed

lemma fill_contacts_phone_source:
  "fill_contacts cs p = (p', e) \<Longrightarrow> phone p' \<noteq> phone p \<Longrightarrow> offers ''phone'' (phone p') cs"
proof (induction cs arbitrary: p)
  case Nil
  then show ?case by simp
next
  case (Cons c cs)
  then show ?case
    by (fastforce simp: offers_def split: sum.splits if_splits)
qed

lemma enrich_person_contacts:
  "fst (enrich_person result p) = fst (fill_contacts (contacts_of result) p)"
  by (cases result rule: contacts_of.cases)
     (auto simp: enrich_person_def split: sum.splits)

lemma enrich_person_failed:
  "lookup_failed result \<Longrightarrow> fst (enrich_person result p) = p"
  by (cases result rule: lookup_failed.cases)
     (auto simp: enrich_person_def split: sum.splits)

lemma enrich_person_other_fields:
  "name (fst (enrich_person result p)) = name p \<and>
   linkedin_url (fst (enrich_person result p)) = linkedin_url p \<and>
   job_title (fst (enrich_person result p)) = job_title p \<and>
   company (fst (enrich_person result p)) = company p \<and>
   location (fst (enrich_person result p)) = location p"
  using fill_contacts_other_fields [of "contacts_of result" p]
  by (cases "fill_contacts (contacts_of result) p") (simp add: enrich_person_contacts)

lemma enrich_person_email:
  "py_truthy (email p) \<Longrightarrow> email (fst (enrich_person result p)) = email p"
  using fill_contacts_email [of "contacts_of result" p]
  by (cases "fill_contacts (contacts_of result) p") (simp add: enrich_person_contacts)

lemma enrich_person_phone:
  "py_truthy (phone p) \<Longrightarrow> phone (fst (enrich_person result p)) = phone p"
  using fill_contacts_phone [of "contacts_of result" p]
  by (cases "fill_contacts (contacts_of result) p") (simp add: enrich_person_contacts)

lemma enrich_person_email_source:
  "email (fst (enrich_person result p)) \<noteq> email p \<Longrightarrow>
   offers ''email'' (email (fst (enrich_person result p))) (contacts_of result)"
  using fill_contacts_email_source [of "contacts_of result" p]
  by (cases "fill_contacts (contacts_of result) p") (simp add: enrich_person_contacts)

lemma enrich_person_phone_source:
  "phone (fst (enrich_person result p)) \<noteq> phone p \<Longrightarrow>
   offers ''phone'' (phone (fst (enrich_person result p))) (contacts_of result)"
  using fill_contacts_phone_source [of "contacts_of result" p]
  by (cases "fill_contacts (contacts_of result) p") (simp add: enrich_person_contacts)

lemma enrich_person_lookup:
  "lookup_params p = Some params \<Longrightarrow> lookup_params (fst (enrich_person result p)) = Some params"
  using enrich_person_other_fields [of result p] enrich_person_email [of p result]
  by (auto simp: lookup_params_def split: if_splits)

subsection \<open>The batch\<close>

text \<open>The loop, one step unfolded, with the store after the step named.\<close>

lemma enrich_loop_Cons:
  "enrich_loop env i (r # rs) s =
     (let s1 = (case lookup_params (s r) of None \<Rightarrow> s
                | Some params \<Rightarrow> s(r := fst (enrich_person (clado_get env i params) (s r))));
          rest = enrich_loop env (Suc i) rs s1
      in (r # fst rest, fst (snd rest),
          (case lookup_params (s r) of None \<Rightarrow> [] | Some params \<Rightarrow> [Get clado_url params])
            @ snd (snd rest)))"
  by (auto simp: Let_def split: option.splits prod.splits)

lemma enrich_loop_same_list: "fst (enrich_loop env i rs s) = rs"
  by (induction rs arbitrary: i s) (simp_all add: enrich_loop_Cons Let_def del: enrich_loop.simps(2))

lemma enrich_loop_lookup:
  "lookup_params (fst (snd (enrich_loop env i rs s)) r) = lookup_params (s r)"
proof (induction rs arbitrary: i s)
  case Nil
  then show ?case by simp
next
  case (Cons a rs)
  show ?case
    by (cases "lookup_params (s a)")
       (auto simp: enrich_loop_Cons Let_def Cons.IH enrich_person_lookup simp del: enrich_loop.simps(2))
qed

lemma map_filter_cong:
  "\<forall>x \<in> set xs. f x = g x \<Longrightarrow> List.map_filter f xs = List.map_filter g xs"
  by (induction xs) (simp_all split: option.splits)

lemma enrich_loop_requests:
  "snd (snd (enrich_loop env i rs s)) =
     map (Get clado_url) (List.map_filter (\<lambda>r. lookup_params (s r)) rs)"
proof (induction rs arbitrary: i s)
  case Nil
  then show ?case by simp
next
  case (Cons a rs)
  have same: "List.map_filter (\<lambda>r. lookup_params (if r = a then q else s r)) rs =
        List.map_filter (\<lambda>r. lookup_params (s r)) rs"
    if "lookup_params q = lookup_params (s a)" for q
    using that by (intro map_filter_cong) simp
  show ?case
  proof (cases "lookup_params (s a)")
    case None
    then show ?thesis
      by (simp add: enrich_loop_Cons Let_def Cons.IH del: enrich_loop.simps(2))
  next
    case (Some params)
    then show ?thesis
      by (simp add: enrich_loop_Cons Let_def Cons.IH same enrich_person_lookup
               del: enrich_loop.simps(2))
  qed
qed

lemma enrich_loop_untouched:
  "r \<notin> set rs \<Longrightarrow> fst (snd (enrich_loop env i rs s)) r = s r"
proof (induction rs arbitrary: i s)
  case Nil
  then show ?case by simp
next
  case (Cons a rs)
  then show ?case
    by (cases "lookup_params (s a)")
       (auto simp: enrich_loop_Cons Let_def simp del: enrich_loop.simps(2))
qed

lemma enrich_loop_kept:
  "kept (s r) (fst (snd (enrich_loop env i rs s)) r)"
proof (induction rs arbitrary: i s)
  case Nil
  then show ?case by (simp add: kept_def)
next
  case (Cons a rs)
  have step: "kept (s a) (fst (enrich_person result (s a)))" for result
    using enrich_person_other_fields [of result "s a"] enrich_person_email [of "s a" result]
      enrich_person_phone [of "s a" result]
    by (simp add: kept_def)
  have trans: "kept p q \<Longrightarrow> kept q q' \<Longrightarrow> kept p q'" for p q q'
    by (auto simp: kept_def)
  show ?case
  proof (cases "lookup_params (s a)")
    case None
    then show ?thesis
      using Cons.IH by (simp add: enrich_loop_Cons Let_def del: enrich_loop.simps(2))
  next
    case (Some params)
    let ?s1 = "s(a := fst (enrich_person (clado_get env i params) (s a)))"
    have eq: "fst (snd (enrich_loop env i (a # rs) s)) = fst (snd (enrich_loop env (Suc i) rs ?s1))"
      using Some by (simp add: enrich_loop_Cons Let_def del: enrich_loop.simps(2))
    have first: "kept (s r) (?s1 r)"
      using step by (simp add: kept_def)
    have "kept (?s1 r) (fst (snd (enrich_loop env (Suc i) rs ?s1)) r)"
      by (rule Cons.IH)
    with first have "kept (s r) (fst (snd (enrich_loop env (Suc i) rs ?s1)) r)"
      by (rule trans)
    then show ?thesis
      by (simp only: eq)
  qed
qed

lemma enrich_loop_at:
  "distinct rs \<Longrightarrow> j < length rs \<Longrightarrow>
   fst (snd (enrich_loop env i rs s)) (rs ! j) =
     (case lookup_params (s (rs ! j)) of None \<Rightarrow> s (rs ! j)
      | Some params \<Rightarrow> fst (enrich_person (clado_get env (i + j) params) (s (rs ! j))))"
proof (induction rs arbitrary: i j s)
  case Nil
  then show ?case by simp
next
  case (Cons a rs)
  show ?case
  proof (cases j)
    case 0
    with Cons.prems show ?thesis
      by (cases "lookup_params (s a)")
         (simp_all add: enrich_loop_Cons Let_def enrich_loop_untouched del: enrich_loop.simps(2))
  next
    case (Suc k)
    with Cons.prems have k: "k < length rs" "distinct rs" "rs ! k \<noteq> a"
      by auto
    show ?thesis
      using Cons.IH [OF k(2) k(1)] k(3) Suc
      by (cases "lookup_params (s a)")
         (simp_all add: enrich_loop_Cons Let_def del: enrich_loop.simps(2) split: option.splits)
  qed
qed

text \<open>A field that changes only through contact entries of one type: whatever value an
  object ends with in that field, other than its first, was carried by an entry of the answer to
  the lookup of some position of the batch that holds the object.\<close>

lemma enrich_loop_source:
  assumes src: "\<And>result p. field (fst (enrich_person result p)) \<noteq> field p \<Longrightarrow>
                  offers kind (field (fst (enrich_person result p))) (contacts_of result)"
  shows "field (fst (snd (enrich_loop env i rs s)) r) \<noteq> field (s r) \<Longrightarrow>
   \<exists>j < length rs. rs ! j = r \<and>
     (\<exists>params. lookup_params (s r) = Some params \<and>
        offers kind (field (fst (snd (enrich_loop env i rs s)) r))
          (contacts_of (clado_get env (i + j) params)))"
proof (induction rs arbitrary: i s)
  case Nil
  then show ?case by simp
next
  case (Cons a rs)
  show ?case
  proof (cases "lookup_params (s a)")
    case None
    then have eq: "fst (snd (enrich_loop env i (a # rs) s)) = fst (snd (enrich_loop env (Suc i) rs s))"
      by (simp add: enrich_loop_Cons Let_def del: enrich_loop.simps(2))
    with Cons.prems have "field (fst (snd (enrich_loop env (Suc i) rs s)) r) \<noteq> field (s r)"
      by (simp del: enrich_loop.simps(2))
    from Cons.IH [OF this] obtain j params where
      "j < length rs" "rs ! j = r" "lookup_params (s r) = Some params"
      "offers kind (field (fst (snd (enrich_loop env (Suc i) rs s)) r))
          (contacts_of (clado_get env (Suc i + j) params))"
      by blast
    then have "Suc j < length (a # rs) \<and> (a # rs) ! Suc j = r \<and>
      (\<exists>params. lookup_params (s r) = Some params \<and>
        offers kind (field (fst (snd (enrich_loop env i (a # rs) s)) r))
          (contacts_of (clado_get env (i + Suc j) params)))"
      by (simp add: eq del: enrich_loop.simps(2))
    then show ?thesis by blast
  next
    case (Some params)
    let ?p = "fst (enrich_person (clado_get env i params) (s a))"
    let ?s1 = "s(a := ?p)"
    have eq: "fst (snd (enrich_loop env i (a # rs) s)) = fst (snd (enrich_loop env (Suc i) rs ?s1))"
      using Some by (simp add: enrich_loop_Cons Let_def del: enrich_loop.simps(2))
    have same_key: "lookup_params (?s1 r) = lookup_params (s r)"
      using Some by (simp add: enrich_person_lookup)
    show ?thesis
    proof (cases "field (fst (snd (enrich_loop env (Suc i) rs ?s1)) r) = field (?s1 r)")
      case False
      from Cons.IH [OF this] obtain j q where j: "j < length rs" "rs ! j = r"
        and q: "lookup_params (?s1 r) = Some q"
        and o: "offers kind (field (fst (snd (enrich_loop env (Suc i) rs ?s1)) r))
            (contacts_of (clado_get env (Suc i + j) q))"
        by blast
      from q same_key have "lookup_params (s r) = Some q"
        by (simp only:)
      with j o have "Suc j < length (a # rs) \<and> (a # rs) ! Suc j = r \<and>
        (\<exists>params. lookup_params (s r) = Some params \<and>
          offers kind (field (fst (snd (enrich_loop env i (a # rs) s)) r))
            (contacts_of (clado_get env (i + Suc j) params)))"
        by (simp add: eq del: enrich_loop.simps(2))
      then show ?thesis by blast
    next
      case True
      with Cons.prems have changed: "field (?s1 r) \<noteq> field (s r)"
        by (simp add: eq del: enrich_loop.simps(2))
      then have ra: "r = a" by (auto split: if_splits)
      with changed have "field ?p \<noteq> field (s a)" by simp
      then have "offers kind (field ?p) (contacts_of (clado_get env i params))"
        by (rule src)
      with True ra Some have "0 < length (a # rs) \<and> (a # rs) ! 0 = r \<and>
        (\<exists>params. lookup_params (s r) = Some params \<and>
          offers kind (field (fst (snd (enrich_loop env i (a # rs) s)) r))
            (contacts_of (clado_get env (i + 0) params)))"
        by (simp add: eq del: enrich_loop.simps(2))
      then show ?thesis by blast
    qed
  qed
qed

subsection \<open>The claims about enrichment\<close>

text \<open>
  Claim C3, as amended. For every batch and every answer of the enrichment provider,
  enrichment never overwrites an email or phone field that was not empty: such a field of
  any object still holds its value afterwards, and every other field of the record is
  untouched. An email or phone that did change was empty before, in the sense of
  \<open>not field\<close> (the empty string, or \<open>None\<close> or another value Python counts as false),
  and now holds the value of a contact entry of type \<open>email\<close> (respectively \<open>phone\<close>)
  from the answer to a lookup made for that object.
\<close>

theorem enrichment_keeps_nonempty_contacts:
  "(py_truthy (email (s r)) \<longrightarrow> email (fst (snd (enrich_with_clado env people s)) r) = email (s r)) \<and>
   (py_truthy (phone (s r)) \<longrightarrow> phone (fst (snd (enrich_with_clado env people s)) r) = phone (s r)) \<and>
   kept (s r) (fst (snd (enrich_with_clado env people s)) r) \<and>
   (email (fst (snd (enrich_with_clado env people s)) r) \<noteq> email (s r) \<longrightarrow>
      \<not> py_truthy (email (s r)) \<and>
      (\<exists>i < length people. people ! i = r \<and>
         (\<exists>params. lookup_params (s r) = Some params \<and>
            offers ''email'' (email (fst (snd (enrich_with_clado env people s)) r))
              (contacts_of (clado_get env i params))))) \<and>
   (phone (fst (snd (enrich_with_clado env people s)) r) \<noteq> phone (s r) \<longrightarrow>
      \<not> py_truthy (phone (s r)) \<and>
      (\<exists>i < length people. people ! i = r \<and>
         (\<exists>params. lookup_params (s r) = Some params \<and>
            offers ''phone'' (phone (fst (snd (enrich_with_clado env people s)) r))
              (contacts_of (clado_get env i params)))))"
proof (cases "key_set (clado_api_key env)")
  case False
  then show ?thesis by (simp add: enrich_with_clado_def kept_def)
next
  case True
  then have eq: "enrich_with_clado env people s = enrich_loop env 0 people s"
    by (simp add: enrich_with_clado_def)
  have k: "kept (s r) (fst (snd (enrich_loop env 0 people s)) r)"
    by (rule enrich_loop_kept)
  have e: "email (fst (snd (enrich_loop env 0 people s)) r) \<noteq> email (s r) \<Longrightarrow>
      \<exists>i < length people. people ! i = r \<and>
         (\<exists>params. lookup_params (s r) = Some params \<and>
            offers ''email'' (email (fst (snd (enrich_loop env 0 people s)) r))
              (contacts_of (clado_get env (0 + i) params)))"
    by (rule enrich_loop_source [where field = email, OF enrich_person_email_source])
  have p: "phone (fst (snd (enrich_loop env 0 people s)) r) \<noteq> phone (s r) \<Longrightarrow>
      \<exists>i < length people. people ! i = r \<and>
         (\<exists>params. lookup_params (s r) = Some params \<and>
            offers ''phone'' (phone (fst (snd (enrich_loop env 0 people s)) r))
              (contacts_of (clado_get env (0 + i) params)))"
    by (rule enrich_loop_source [where field = phone, OF enrich_person_phone_source])
  from k e p show ?thesis
    unfolding eq kept_def by auto
qed

lemma sample_enriched_1:
  "fst (snd (enrich_with_clado sample_env [0, Suc 0] sample_store)) (Suc 0) =
     \<lparr>name = JStr ''Cy'', email = JStr ''cy@acme.com'', phone = JStr ''555-0100'',
      linkedin_url = JStr [], job_title = JStr [], company = JStr ''Acme'', location = JStr []\<rparr>"
  by code_simp

lemma sample_store_1:
  "sample_store (Suc 0) = cy"
  by (simp add: sample_store_def)

theorem enrichment_keeps_nonempty_contacts_witness:
  "py_truthy (email (sample_store (Suc 0))) \<and>
   email (fst (snd (enrich_with_clado sample_env [0, Suc 0] sample_store)) (Suc 0)) = JStr ''cy@acme.com'' \<and>
   phone (fst (snd (enrich_with_clado sample_env [0, Suc 0] sample_store)) (Suc 0)) \<noteq> phone (sample_store (Suc 0)) \<and>
   \<not> py_truthy (phone (sample_store (Suc 0))) \<and>
   (\<exists>i < length [0, Suc 0]. [0, Suc 0] ! i = Suc 0 \<and>
      (\<exists>params. lookup_params (sample_store (Suc 0)) = Some params \<and>
          offers ''phone'' (JStr ''555-0100'') (contacts_of (clado_get sample_env i params))))"
  using enrichment_keeps_nonempty_contacts [of sample_store "Suc 0" sample_env "[0, Suc 0]"]
  by (simp add: sample_enriched_1 sample_store_1 cy_def)

text \<open>A record whose email is \<open>None\<close>, not the empty string, at the second position of a
  batch: its lookup succeeds and the email is filled.\<close>

theorem enrichment_fills_null_email:
  "email (bob_store (Suc 0)) = JNull \<and>
   email (fst (snd (enrich_with_clado sample_env [0, Suc 0] bob_store)) (Suc 0))
     = JStr ''new@acme.com''"
  by code_simp

text \<open>
  Claim C4, as amended. For every batch, enrichment returns the same records in the same
  order and number. Without an enrichment key it sends no lookup and changes no record.
  With an enrichment key it sends one lookup for every record that has a lookup key,
  whatever became of the lookups before it. With an enrichment key and a batch of distinct
  objects, every record is processed with the answer to its own lookup; and in a batch of
  distinct objects a record whose lookup fails by a transport failure, a status other than
  200, a body that is not JSON or a body from which the contact list cannot be read is
  left unchanged.
\<close>

theorem enrichment_keeps_batch_and_goes_on:
  "fst (enrich_with_clado env people s) = people \<and>
   (\<not> key_set (clado_api_key env) \<longrightarrow> snd (enrich_with_clado env people s) = (s, [])) \<and>
   (key_set (clado_api_key env) \<longrightarrow>
      snd (snd (enrich_with_clado env people s)) =
        map (Get clado_url) (List.map_filter (\<lambda>r. lookup_params (s r)) people)) \<and>
   (key_set (clado_api_key env) \<longrightarrow> distinct people \<longrightarrow>
      (\<forall>i < length people.
          fst (snd (enrich_with_clado env people s)) (people ! i) =
            (case lookup_params (s (people ! i)) of
               None \<Rightarrow> s (people ! i)
             | Some params \<Rightarrow> fst (enrich_person (clado_get env i params) (s (people ! i)))))) \<and>
   (distinct people \<longrightarrow>
      (\<forall>i < length people. \<forall>params.
          lookup_params (s (people ! i)) = Some params \<longrightarrow>
          lookup_failed (clado_get env i params) \<longrightarrow>
          fst (snd (enrich_with_clado env people s)) (people ! i) = s (people ! i)))"
proof (cases "key_set (clado_api_key env)")
  case False
  then show ?thesis by (simp add: enrich_with_clado_def)
next
  case True
  then have eq: "enrich_with_clado env people s = enrich_loop env 0 people s"
    by (simp add: enrich_with_clado_def)
  have at: "fst (snd (enrich_loop env 0 people s)) (people ! i) =
            (case lookup_params (s (people ! i)) of
               None \<Rightarrow> s (people ! i)
             | Some params \<Rightarrow> fst (enrich_person (clado_get env i params) (s (people ! i))))"
    if "distinct people" "i < length people" for i
    using enrich_loop_at [OF that, of env 0 s] by (simp split: option.splits)
  have failed: "fst (snd (enrich_loop env 0 people s)) (people ! i) = s (people ! i)"
    if "distinct people" "i < length people" "lookup_params (s (people ! i)) = Some params"
       "lookup_failed (clado_get env i params)" for i params
    using at [OF that(1,2)] that(3,4) by (simp add: enrich_person_failed)
  show ?thesis
    unfolding eq using at failed True
    by (simp add: enrich_loop_same_list enrich_loop_requests)
qed

lemma sample_store_0: "sample_store 0 = dana"
  by (simp add: sample_store_def)

theorem enrichment_keeps_batch_and_goes_on_witness:
  "key_set (clado_api_key sample_env) \<and> distinct [0, Suc 0] \<and>
   lookup_params (sample_store 0) = Some [(''linkedin_url'', JStr ''li/dana'')] \<and>
   lookup_failed (clado_get sample_env 0 [(''linkedin_url'', JStr ''li/dana'')]) \<and>
   fst (enrich_with_clado sample_env [0, Suc 0] sample_store) = [0, Suc 0] \<and>
   fst (snd (enrich_with_clado sample_env [0, Suc 0] sample_store)) 0 = dana \<and>
   snd (snd (enrich_with_clado sample_env [0, Suc 0] sample_store)) =
     [Get clado_url [(''linkedin_url'', JStr ''li/dana'')],
      Get clado_url [(''email'', JStr ''cy@acme.com'')]] \<and>
   \<not> key_set (clado_api_key flaky_env) \<and>
   snd (enrich_with_clado flaky_env [0, Suc 0] sample_store) = (sample_store, [])"
proof -
  have k: "key_set (clado_api_key sample_env)" "\<not> key_set (clado_api_key flaky_env)"
    by (simp_all add: sample_env_def flaky_env_def key_set_def)
  have l: "lookup_params (sample_store 0) = Some [(''linkedin_url'', JStr ''li/dana'')]"
    by (simp add: sample_store_def dana_def lookup_params_def)
  have f: "lookup_failed (clado_get sample_env 0 [(''linkedin_url'', JStr ''li/dana'')])"
    by (simp add: sample_env_def)
  have m: "List.map_filter (\<lambda>r. lookup_params (sample_store r)) [0, Suc 0] =
             [[(''linkedin_url'', JStr ''li/dana'')], [(''email'', JStr ''cy@acme.com'')]]"
    by (simp add: sample_store_def dana_def cy_def lookup_params_def)
  show ?thesis
    using enrichment_keeps_batch_and_goes_on [of sample_env "[0, Suc 0]" sample_store]
      enrichment_keeps_batch_and_goes_on [of flaky_env "[0, Suc 0]" sample_store] k l f m
    by (auto simp: sample_store_0)
qed

text \<open>An answer whose second contact entry is malformed: the loop over the entries raises,
  yet the record has already got the email address of the first entry.\<close>

theorem enrichment_error_after_partial_fill:
  "lookup_params dana = Some [(''linkedin_url'', JStr ''li/dana'')] \<and>
   snd (enrich_person (clado_get half_broken_env 0 [(''linkedin_url'', JStr ''li/dana'')]) dana)
     = Some (KeyError ''type'') \<and>
   email (dana_store 0) = JStr [] \<and>
   email (fst (snd (enrich_with_clado half_broken_env [0] dana_store)) 0) = JStr ''new@acme.com''"
  by code_simp

section \<open>Aggregation\<close>

lemma apollo_step_records: "fst (apollo_step env criteria) = apollo_records env criteria"
  by (auto simp: apollo_step_def apollo_records_def search_people_apollo_def
           split: prod.splits sum.splits)

lemma hunter_loop_records:
  "fst (hunter_loop env domains people log) = people @ concat (map (hunter_records env) domains)"
proof (induction domains arbitrary: people log)
  case Nil
  then show ?case by simp
next
  case (Cons d ds)
  show ?case
  proof (cases "key_set (hunter_api_key env)")
    case True
    then show ?thesis
      by (cases "search_people_hunter env d JNull"; cases "fst (search_people_hunter env d JNull)")
         (simp_all add: Cons.IH hunter_records_def)
  next
    case False
    then show ?thesis
      by (simp add: Cons.IH hunter_records_def search_people_hunter_def)
  qed
qed

lemma hunter_loop_requests:
  "key_set (hunter_api_key env) \<Longrightarrow>
   snd (hunter_loop env domains people log) =
     log @ map (\<lambda>d. Get hunter_url (hunter_params env d JNull)) domains"
proof (induction domains arbitrary: people log)
  case Nil
  then show ?case by simp
next
  case (Cons d ds)
  then show ?case
    by (cases "search_people_hunter env d JNull"; cases "fst (search_people_hunter env d JNull)")
       (auto simp: search_people_hunter_def Let_def)
qed

lemma gather_found: "fst (gather env query) = found_spec env query"
  by (cases "classify_spec query"; cases "apollo_step env (case classify_spec query of FaangBranch c d \<Rightarrow> c | TitleBranch c \<Rightarrow> c)")
     (auto simp: gather_def found_spec_def classify_table hunter_loop_records
        apollo_step_records [symmetric])

lemma enrich_with_clado_same_list: "fst (enrich_with_clado env people s) = people"
  by (simp add: enrich_with_clado_def enrich_loop_same_list)

lemma enrich_with_clado_kept: "kept (s r) (fst (snd (enrich_with_clado env people s)) r)"
  by (simp add: enrich_with_clado_def enrich_loop_kept) (simp add: kept_def)

lemma kept_refl: "kept p p"
  by (simp add: kept_def)

lemma result_of_found:
  "length (fst (search_by_natural_language env query)) = length (fst (gather env query)) \<and>
   (\<forall>i < length (fst (gather env query)).
       kept (fst (gather env query) ! i) (fst (search_by_natural_language env query) ! i)) \<and>
   (\<not> key_set (clado_api_key env) \<longrightarrow>
       fst (search_by_natural_language env query) = fst (gather env query))"
proof (cases "fst (gather env query) \<noteq> [] \<and> key_set (clado_api_key env)")
  case False
  then show ?thesis
    by (cases "gather env query") (auto simp: search_by_natural_language_def kept_refl)
next
  case True
  obtain people log where g: "gather env query = (people, log)"
    by (cases "gather env query")
  let ?s = "\<lambda>r. if r < length people then people ! r else blank_person"
  let ?e = "enrich_with_clado env [0 ..< length people] ?s"
  have r: "fst (search_by_natural_language env query) = map (fst (snd ?e)) [0 ..< length people]"
    using True g enrich_with_clado_same_list [of env "[0 ..< length people]" ?s]
    by (cases ?e) (simp add: search_by_natural_language_def new_objects_def)
  have "kept (people ! i) (fst (snd ?e) i)" if "i < length people" for i
    using enrich_with_clado_kept [of ?s i env "[0 ..< length people]"] that by simp
  with True g show ?thesis
    by (simp add: r)
qed


lemma faang_payload:
  "apollo_payload [(''company_names'', str_list [''Meta'', ''Apple'', ''Amazon'', ''Netflix'', ''Google'']),
                   (''limit'', JNum 50)] =
     Inr [(''page'', JNum 1), (''per_page'', JNum 50),
          (''organization_names'', str_list [''Meta'', ''Apple'', ''Amazon'', ''Netflix'', ''Google''])]"
  by (simp add: apollo_payload_def dict_get_def)

lemma apollo_step_requests:
  "key_set (apollo_api_key env) \<Longrightarrow> apollo_payload criteria = Inr payload \<Longrightarrow>
   snd (apollo_step env criteria) = [Post apollo_url payload]"
  by (simp add: apollo_step_def search_people_apollo_def split: prod.splits sum.splits)

text \<open>
  Claim C5. For every query with the substring \<open>faang\<close> and both the Apollo and the Hunter
  key configured, the list assembled holds Apollo's records first, then Hunter's records
  domain by domain in the order meta.com, apple.com, amazon.com, netflix.com, google.com
  (the requests go out in that order too), and the list returned has these records in
  that order, each as the enrichment pass left it (the very same list when no enrichment
  key is set). For every query that matches neither branch the result is empty and no
  request is sent.
\<close>

theorem faang_apollo_first_then_hunter_by_domain:
  "(contains ''faang'' (lower query) \<longrightarrow> key_set (apollo_api_key env) \<longrightarrow>
    key_set (hunter_api_key env) \<longrightarrow>
      fst (gather env query) =
        apollo_records env [(''company_names'', str_list [''Meta'', ''Apple'', ''Amazon'', ''Netflix'', ''Google'']),
                            (''limit'', JNum 50)]
        @ hunter_records env ''meta.com'' @ hunter_records env ''apple.com''
        @ hunter_records env ''amazon.com'' @ hunter_records env ''netflix.com''
        @ hunter_records env ''google.com'' \<and>
      snd (gather env query) =
        Post apollo_url [(''page'', JNum 1), (''per_page'', JNum 50),
                         (''organization_names'', str_list [''Meta'', ''Apple'', ''Amazon'', ''Netflix'', ''Google''])]
        # map (\<lambda>d. Get hunter_url (hunter_params env d JNull))
            [''meta.com'', ''apple.com'', ''amazon.com'', ''netflix.com'', ''google.com'']) \<and>
   (\<not> contains ''faang'' (lower query) \<longrightarrow>
    \<not> list_ex (\<lambda>t. contains t (lower query))
          [''engineer'', ''developer'', ''manager'', ''director'', ''ceo'', ''cto''] \<longrightarrow>
      search_by_natural_language env query = ([], [])) \<and>
   length (fst (search_by_natural_language env query)) = length (fst (gather env query)) \<and>
   (\<forall>i < length (fst (gather env query)).
       kept (fst (gather env query) ! i) (fst (search_by_natural_language env query) ! i)) \<and>
   (\<not> key_set (clado_api_key env) \<longrightarrow>
       fst (search_by_natural_language env query) = fst (gather env query))"
proof -
  have records: "fst (gather env query) =
        apollo_records env [(''company_names'', str_list [''Meta'', ''Apple'', ''Amazon'', ''Netflix'', ''Google'']),
                            (''limit'', JNum 50)]
        @ hunter_records env ''meta.com'' @ hunter_records env ''apple.com''
        @ hunter_records env ''amazon.com'' @ hunter_records env ''netflix.com''
        @ hunter_records env ''google.com''"
    if "contains ''faang'' (lower query)"
    using that by (simp add: gather_found found_spec_def classify_spec_def)
  have requests: "snd (gather env query) =
        Post apollo_url [(''page'', JNum 1), (''per_page'', JNum 50),
                         (''organization_names'', str_list [''Meta'', ''Apple'', ''Amazon'', ''Netflix'', ''Google''])]
        # map (\<lambda>d. Get hunter_url (hunter_params env d JNull))
            [''meta.com'', ''apple.com'', ''amazon.com'', ''netflix.com'', ''google.com'']"
    if "contains ''faang'' (lower query)" "key_set (apollo_api_key env)" "key_set (hunter_api_key env)"
  proof -
    let ?c = "[(''company_names'', str_list [''Meta'', ''Apple'', ''Amazon'', ''Netflix'', ''Google'']),
               (''limit'', JNum 50)]"
    let ?ds = "[''meta.com'', ''apple.com'', ''amazon.com'', ''netflix.com'', ''google.com'']"
    have "gather env query =
            hunter_loop env ?ds (fst (apollo_step env ?c)) (snd (apollo_step env ?c))"
      using that(1)
      by (simp add: gather_def classify_table classify_spec_def split: prod.splits
               del: hunter_loop.simps)
    then show ?thesis
      using that(2,3) by (simp add: hunter_loop_requests apollo_step_requests faang_payload
                               del: hunter_loop.simps)
  qed
  have no_branch: "search_by_natural_language env query = ([], [])"
    if "\<not> contains ''faang'' (lower query)"
       "\<not> list_ex (\<lambda>t. contains t (lower query))
          [''engineer'', ''developer'', ''manager'', ''director'', ''ceo'', ''cto'']"
    using that by (simp add: search_by_natural_language_def gather_def classify_def)
  show ?thesis
    using records requests no_branch result_of_found [of env query]
    by blast
qed

lemma sample_faang_records:
  "apollo_records sample_env
     [(''company_names'', str_list [''Meta'', ''Apple'', ''Amazon'', ''Netflix'', ''Google'']),
      (''limit'', JNum 50)] = [bob, cy]"
  "hunter_records sample_env ''meta.com'' = [ada]"
  "hunter_records sample_env ''apple.com'' = [ada]"
  "hunter_records sample_env ''amazon.com'' = [ada]"
  "hunter_records sample_env ''netflix.com'' = [ada]"
  "hunter_records sample_env ''google.com'' = [ada]"
  by code_simp+

theorem faang_apollo_first_then_hunter_by_domain_witness:
  "contains ''faang'' (lower ''People working in FAANG'') \<and>
   key_set (apollo_api_key sample_env) \<and> key_set (hunter_api_key sample_env) \<and>
   fst (gather sample_env ''People working in FAANG'') = [bob, cy, ada, ada, ada, ada, ada] \<and>
   length (fst (search_by_natural_language sample_env ''People working in FAANG'')) = 7 \<and>
   kept cy (fst (search_by_natural_language sample_env ''People working in FAANG'') ! 1) \<and>
   search_by_natural_language sample_env ''something unrelated'' = ([], [])"
proof -
  have c: "contains ''faang'' (lower ''People working in FAANG'')"
    by code_simp
  have k: "key_set (apollo_api_key sample_env)" "key_set (hunter_api_key sample_env)"
    by (simp_all add: sample_env_def key_set_def)
  have n: "\<not> contains ''faang'' (lower ''something unrelated'')"
    "\<not> list_ex (\<lambda>t. contains t (lower ''something unrelated''))
          [''engineer'', ''developer'', ''manager'', ''director'', ''ceo'', ''cto'']"
    by code_simp+
  have f: "fst (gather sample_env ''People working in FAANG'') = [bob, cy, ada, ada, ada, ada, ada]"
    using faang_apollo_first_then_hunter_by_domain [of "''People working in FAANG''" sample_env] c k
    by (simp add: sample_faang_records)
  have "\<forall>i < length (fst (gather sample_env ''People working in FAANG'')).
          kept (fst (gather sample_env ''People working in FAANG'') ! i)
               (fst (search_by_natural_language sample_env ''People working in FAANG'') ! i)"
    using faang_apollo_first_then_hunter_by_domain [of "''People working in FAANG''" sample_env]
    by blast
  then have "1 < length (fst (gather sample_env ''People working in FAANG'')) \<longrightarrow>
          kept (fst (gather sample_env ''People working in FAANG'') ! 1)
               (fst (search_by_natural_language sample_env ''People working in FAANG'') ! 1)"
    by blast
  then have e: "kept cy (fst (search_by_natural_language sample_env ''People working in FAANG'') ! 1)"
    by (simp add: f)
  show ?thesis
    using faang_apollo_first_then_hunter_by_domain [of "''People working in FAANG''" sample_env]
      faang_apollo_first_then_hunter_by_domain [of "''something unrelated''" sample_env]
      c k n f e
    by simp
qed

text \<open>
  Claim C6. For every query and every behaviour of the providers, the aggregation returns
  a list built from what each provider call contributes, and a call that fails
  contributes no record: one that raises for any reason, in particular for a missing key,
  a transport failure or an HTTP error status. The records of the other calls are
  returned all the same.
\<close>

theorem provider_failure_contributes_nothing:
  "fst (gather env query) = found_spec env query \<and>
   length (fst (search_by_natural_language env query)) = length (found_spec env query) \<and>
   (\<forall>i < length (found_spec env query).
       kept (found_spec env query ! i) (fst (search_by_natural_language env query) ! i)) \<and>
   (\<not> key_set (clado_api_key env) \<longrightarrow>
       fst (search_by_natural_language env query) = found_spec env query) \<and>
   (fst (search_people_apollo env criteria) = Inl e \<longrightarrow> apollo_records env criteria = []) \<and>
   (fst (search_people_hunter env domain JNull) = Inl e' \<longrightarrow> hunter_records env domain = []) \<and>
   (\<not> key_set (apollo_api_key env) \<or>
    apollo_post env payload = NetworkFailure msg \<or>
    (\<exists>raw body. apollo_post env payload = Response status raw body \<and> raises_for_status status) \<longrightarrow>
    apollo_payload criteria = Inr payload \<longrightarrow> apollo_records env criteria = []) \<and>
   (\<not> key_set (hunter_api_key env) \<or>
    hunter_get env (hunter_params env domain JNull) = NetworkFailure msg' \<or>
    (\<exists>raw body. hunter_get env (hunter_params env domain JNull) = Response status' raw body \<and>
                 raises_for_status status') \<longrightarrow>
    hunter_records env domain = [])"
proof -
  have a: "apollo_records env criteria = []"
    if "\<not> key_set (apollo_api_key env) \<or>
        apollo_post env payload = NetworkFailure msg \<or>
        (\<exists>raw body. apollo_post env payload = Response status raw body \<and> raises_for_status status)"
       "apollo_payload criteria = Inr payload"
    using that by (auto simp: apollo_records_def search_people_apollo_def)
  have h: "hunter_records env domain = []"
    if "\<not> key_set (hunter_api_key env) \<or>
        hunter_get env (hunter_params env domain JNull) = NetworkFailure msg' \<or>
        (\<exists>raw body. hunter_get env (hunter_params env domain JNull) = Response status' raw body \<and>
                     raises_for_status status')"
    using that by (auto simp: hunter_records_def search_people_hunter_def Let_def)
  have r: "apollo_records env criteria = []" if "fst (search_people_apollo env criteria) = Inl e"
    using that by (simp add: apollo_records_def)
  have r': "hunter_records env domain = []" if "fst (search_people_hunter env domain JNull) = Inl e'"
    using that by (simp add: hunter_records_def)
  show ?thesis
    using result_of_found [of env query] a h r r'
    unfolding gather_found by blast
qed

lemma flaky_found:
  "found_spec flaky_env ''FAANG'' = [ada, ada, ada, ada]"
  by code_simp

lemma flaky_failures:
  "apollo_post flaky_env [(''page'', JNum 1), (''per_page'', JNum 50),
       (''organization_names'', str_list [''Meta'', ''Apple'', ''Amazon'', ''Netflix'', ''Google''])]
     = NetworkFailure ''refused''"
  "hunter_get flaky_env (hunter_params flaky_env ''apple.com'' JNull) = Response 500 ''unavailable'' None"
  "raises_for_status 500"
  "\<not> key_set (clado_api_key flaky_env)"
  by code_simp+

theorem provider_failure_contributes_nothing_witness:
  "fst (search_by_natural_language flaky_env ''FAANG'') = [ada, ada, ada, ada] \<and>
   apollo_records flaky_env
     [(''company_names'', str_list [''Meta'', ''Apple'', ''Amazon'', ''Netflix'', ''Google'']),
      (''limit'', JNum 50)] = [] \<and>
   hunter_records flaky_env ''apple.com'' = []"
  using provider_failure_contributes_nothing
    [of flaky_env "''FAANG''"
        "[(''company_names'', str_list [''Meta'', ''Apple'', ''Amazon'', ''Netflix'', ''Google'']),
          (''limit'', JNum 50)]" _ "''apple.com''" _
        "[(''page'', JNum 1), (''per_page'', JNum 50),
          (''organization_names'', str_list [''Meta'', ''Apple'', ''Amazon'', ''Netflix'', ''Google''])]"
        "''refused''" _ _ 500]
    flaky_found flaky_failures faang_payload
  by simp

section \<open>Requests and responses of the search clients\<close>

lemma map_of_snoc:
  "map_of (d @ [(k, v)]) k' =
     (case map_of d k' of Some x \<Rightarrow> Some x | None \<Rightarrow> if k' = k then Some v else None)"
  by (simp add: map_add_def split: option.splits)

lemma map_of_add_if:
  "map_of (add_if k v d) k' =
     (case map_of d k' of Some x \<Rightarrow> Some x
      | None \<Rightarrow> if k' = k \<and> py_truthy v then Some v else None)"
  by (simp add: add_if_def map_of_snoc del: map_of_append split: option.splits)

lemma people_search_payload_keys:
  "\<forall>(k, arg) \<in> set people_search_filters.
      map_of (people_search_payload a) k = (if py_truthy (arg a) then Some (arg a) else None)"
  by (simp add: people_search_filters_def people_search_payload_def Let_def map_of_add_if)

lemma apollo_payload_keys:
  assumes "apollo_payload criteria = Inr payload"
  shows "\<forall>(ck, pk) \<in> set apollo_filter_keys. map_of payload pk = map_of criteria ck"
    and "map_of criteria ''keywords'' = None \<longrightarrow> map_of payload ''q_keywords'' = None"
    and "\<forall>v. map_of criteria ''keywords'' = Some v \<longrightarrow>
            (\<exists>joined. py_join '' '' v = Inr joined \<and> map_of payload ''q_keywords'' = Some (JStr joined))"
    and "map_of payload ''per_page'' = Some (dict_get criteria ''limit'' (JNum 25))"
  using assms
  by (auto simp: apollo_payload_def apollo_filter_keys_def Let_def bindE_Inr_iff map_of_snoc
           simp del: map_of_append split: option.splits)

text \<open>
  Claim C2, as amended. The request body \<open>search_people_apollo\<close> sends holds the payload
  key of a criteria field exactly when the criteria dictionary has the key of that field,
  and then with the value of the criteria as it is (for \<open>keywords\<close>, its items joined by
  spaces): a field that is absent never appears, a field that is present appears also
  when it is an empty list or an empty string. The request body \<open>people_search\<close> sends
  holds the key of a filter exactly when the value of the filter is not empty.
\<close>

theorem request_body_keys:
  "(apollo_payload criteria = Inr payload \<longrightarrow>
      (key_set (apollo_api_key env) \<longrightarrow>
         snd (search_people_apollo env criteria) = [Post apollo_url payload]) \<and>
      (\<forall>(ck, pk) \<in> set apollo_filter_keys. map_of payload pk = map_of criteria ck) \<and>
      (map_of criteria ''keywords'' = None \<longrightarrow> map_of payload ''q_keywords'' = None) \<and>
      (\<forall>v. map_of criteria ''keywords'' = Some v \<longrightarrow>
         (\<exists>joined. py_join '' '' v = Inr joined \<and>
                   map_of payload ''q_keywords'' = Some (JStr joined)))) \<and>
   (key_set api_key \<longrightarrow>
      snd (snd (people_search api_key post a)) = [Post people_search_url (people_search_payload a)]) \<and>
   (\<forall>(k, arg) \<in> set people_search_filters.
      map_of (people_search_payload a) k = (if py_truthy (arg a) then Some (arg a) else None))"
proof (intro conjI impI)
  assume p: "apollo_payload criteria = Inr payload"
  show "snd (search_people_apollo env criteria) = [Post apollo_url payload]"
    if "key_set (apollo_api_key env)"
    using that p by (simp add: search_people_apollo_def)
  show "\<forall>(ck, pk) \<in> set apollo_filter_keys. map_of payload pk = map_of criteria ck"
    by (rule apollo_payload_keys(1) [OF p])
  show "map_of payload ''q_keywords'' = None" if "map_of criteria ''keywords'' = None"
    using apollo_payload_keys(2) [OF p] that by simp
  show "\<forall>v. map_of criteria ''keywords'' = Some v \<longrightarrow>
         (\<exists>joined. py_join '' '' v = Inr joined \<and>
                   map_of payload ''q_keywords'' = Some (JStr joined))"
    by (rule apollo_payload_keys(3) [OF p])
next
  show "snd (snd (people_search api_key post a)) = [Post people_search_url (people_search_payload a)]"
    if "key_set api_key"
    using that
    by (simp add: people_search_def Let_def split: http_result.splits option.splits)
  show "\<forall>(k, arg) \<in> set people_search_filters.
      map_of (people_search_payload a) k = (if py_truthy (arg a) then Some (arg a) else None)"
    by (rule people_search_payload_keys)
qed

lemma sample_payload:
  "apollo_payload [(''job_titles'', str_list [''CTO'']), (''keywords'', str_list [''ai'', ''ml''])] =
     Inr [(''page'', JNum 1), (''per_page'', JNum 25), (''person_titles'', str_list [''CTO'']),
          (''q_keywords'', JStr ''ai ml'')]"
  by code_simp

theorem request_body_keys_witness:
  "apollo_payload [(''job_titles'', str_list [''CTO'']), (''keywords'', str_list [''ai'', ''ml''])] =
     Inr [(''page'', JNum 1), (''per_page'', JNum 25), (''person_titles'', str_list [''CTO'']),
          (''q_keywords'', JStr ''ai ml'')] \<and>
   key_set (apollo_api_key sample_env) \<and> key_set (Some ''k'') \<and>
   snd (search_people_apollo sample_env
          [(''job_titles'', str_list [''CTO'']), (''keywords'', str_list [''ai'', ''ml''])]) =
     [Post apollo_url [(''page'', JNum 1), (''per_page'', JNum 25),
                       (''person_titles'', str_list [''CTO'']), (''q_keywords'', JStr ''ai ml'')]] \<and>
   snd (snd (people_search (Some ''k'') found_nothing titles_only)) =
     [Post people_search_url (people_search_payload titles_only)] \<and>
   map_of (people_search_payload titles_only) ''person_titles'' = Some (JList [JStr ''CTO'']) \<and>
   map_of (people_search_payload titles_only) ''q_keywords'' = None"
proof -
  have k: "key_set (apollo_api_key sample_env)" "key_set (Some ''k'')"
    by (simp_all add: sample_env_def key_set_def)
  show ?thesis
    using request_body_keys
      [of "[(''job_titles'', str_list [''CTO'']), (''keywords'', str_list [''ai'', ''ml''])]"
          "[(''page'', JNum 1), (''per_page'', JNum 25), (''person_titles'', str_list [''CTO'']),
            (''q_keywords'', JStr ''ai ml'')]"
          sample_env "Some ''k''" found_nothing titles_only]
      sample_payload k
    by (simp add: people_search_filters_def titles_only_def)
qed

text \<open>Criteria with an empty list of job titles and an empty list of keywords: the body
  sent has \<open>person_titles\<close> as an empty list and \<open>q_keywords\<close> as an empty string.\<close>

theorem empty_fields_are_sent:
  "snd (search_people_apollo sample_env empty_fields) =
     [Post apollo_url [(''page'', JNum 1), (''per_page'', JNum 25),
                       (''person_titles'', JList []), (''q_keywords'', JStr [])]]"
  by code_simp

text \<open>The one request \<open>domain_search\<close> sends.\<close>

lemma domain_search_requests:
  "snd (snd (domain_search hunter_key get domain title limit)) =
     [Get hunter_url (domain_search_params hunter_key domain title limit)]"
  by (simp add: domain_search_def domain_search_params_def Let_def
           split: http_result.splits option.splits)

text \<open>
  Claim C9, as amended. Whatever the provider answers to other requests: when the request
  a standalone client sends (\<open>people_search\<close> with its key configured, \<open>domain_search\<close>)
  is answered with a status other than 200, the client prints the status code with the
  response text and returns \<open>None\<close> to its caller, and when it is answered with status 200
  and a body that decodes, the client returns the decoded JSON body as it is. When the
  request a client of main.py sends (\<open>search_people_apollo\<close> or \<open>search_people_hunter\<close>
  with its key configured, the payload built) is answered with a status from 400 to 599,
  the client raises an error to its caller that carries the status code, and when it is
  answered with any other status and a body that decodes, the client returns what the
  normalizer makes of the decoded body. In each script the Hunter client has the same
  contract as the Apollo client.
\<close>

theorem provider_status_contract:
  "(key_set api_key \<longrightarrow> post (people_search_payload a) = Response status raw body \<longrightarrow>
      (status \<noteq> 200 \<longrightarrow>
         fst (people_search api_key post a) = Inr None \<and>
         fst (snd (people_search api_key post a)) = [ErrorLine status raw]) \<and>
      (status = 200 \<longrightarrow>
         (\<forall>data. body = Some data \<longrightarrow> fst (people_search api_key post a) = Inr (Some data)))) \<and>
   snd (snd (domain_search hunter_key get domain title limit)) =
     [Get hunter_url (domain_search_params hunter_key domain title limit)] \<and>
   (get (domain_search_params hunter_key domain title limit) = Response status raw body \<longrightarrow>
      (status \<noteq> 200 \<longrightarrow>
         fst (domain_search hunter_key get domain title limit) = Inr None \<and>
         fst (snd (domain_search hunter_key get domain title limit)) = [ErrorLine status raw]) \<and>
      (status = 200 \<longrightarrow>
         (\<forall>data. body = Some data \<longrightarrow>
            fst (domain_search hunter_key get domain title limit) = Inr (Some data)))) \<and>
   (key_set (apollo_api_key env) \<longrightarrow> apollo_payload criteria = Inr payload \<longrightarrow>
    apollo_post env payload = Response status raw body \<longrightarrow>
      (raises_for_status status \<longrightarrow>
         fst (search_people_apollo env criteria) =
           Inl (APIError ''Apollo API error'' (HTTPError status))) \<and>
      (\<not> raises_for_status status \<longrightarrow>
         (\<forall>data. body = Some data \<longrightarrow>
            fst (search_people_apollo env criteria) = apollo_people data))) \<and>
   (key_set (hunter_api_key env) \<longrightarrow>
    hunter_get env (hunter_params env site title) = Response status raw body \<longrightarrow>
      (raises_for_status status \<longrightarrow>
         fst (search_people_hunter env site title) =
           Inl (APIError ''Hunter API error'' (HTTPError status))) \<and>
      (\<not> raises_for_status status \<longrightarrow>
         (\<forall>data. body = Some data \<longrightarrow>
            fst (search_people_hunter env site title) = hunter_people env data)))"
proof -
  have d: "fst (domain_search hunter_key get domain title limit) =
             (if status \<noteq> 200 then Inr None
              else case body of None \<Rightarrow> Inl JSONDecodeError | Some data \<Rightarrow> Inr (Some data)) \<and>
           fst (snd (domain_search hunter_key get domain title limit)) =
             (if status \<noteq> 200 then [ErrorLine status raw] else [])"
    if "get (domain_search_params hunter_key domain title limit) = Response status raw body"
    using that
    by (cases "py_truthy title")
       (auto simp: domain_search_def domain_search_params_def Let_def split: option.splits)
  show ?thesis
    using d
    by (auto simp: people_search_def search_people_apollo_def search_people_hunter_def Let_def
          domain_search_requests)
qed

theorem provider_status_contract_witness:
  "key_set (Some ''k'') \<and>
   not_found (people_search_payload titles_only) = Response 404 ''no such route'' None \<and>
   fst (people_search (Some ''k'') not_found titles_only) = Inr None \<and>
   fst (snd (people_search (Some ''k'') not_found titles_only)) = [ErrorLine 404 ''no such route''] \<and>
   fst (domain_search (Some ''k'') not_found (JStr ''acme.com'') JNull (JNum 10)) = Inr None \<and>
   fst (people_search (Some ''k'') found_nothing titles_only) = Inr (Some (JObj [])) \<and>
   fst (domain_search (Some ''k'') found_nothing (JStr ''acme.com'') JNull (JNum 10))
     = Inr (Some (JObj [])) \<and>
   key_set (apollo_api_key (server_error_env ''down'')) \<and> raises_for_status 500 \<and>
   fst (search_people_apollo (server_error_env ''down'') []) =
     Inl (APIError ''Apollo API error'' (HTTPError 500)) \<and>
   key_set (hunter_api_key flaky_env) \<and>
   hunter_get flaky_env (hunter_params flaky_env ''apple.com'' JNull)
     = Response 500 ''unavailable'' None \<and>
   fst (search_people_hunter flaky_env ''apple.com'' JNull) =
     Inl (APIError ''Hunter API error'' (HTTPError 500)) \<and>
   \<not> raises_for_status 200 \<and>
   fst (search_people_hunter flaky_env ''meta.com'' JNull) = hunter_people flaky_env sample_hunter_body"
proof -
  have k: "key_set (Some ''k'')" "key_set (apollo_api_key (server_error_env ''down''))"
    "key_set (hunter_api_key flaky_env)" "raises_for_status 500" "\<not> raises_for_status 200"
    by (simp_all add: key_set_def server_error_env_def flaky_env_def sample_env_def
          raises_for_status_def)
  have n: "not_found (people_search_payload titles_only) = Response 404 ''no such route'' None"
    "not_found (domain_search_params (Some ''k'') (JStr ''acme.com'') JNull (JNum 10))
       = Response 404 ''no such route'' None"
    "found_nothing (people_search_payload titles_only) = Response 200 ''{}'' (Some (JObj []))"
    "found_nothing (domain_search_params (Some ''k'') (JStr ''acme.com'') JNull (JNum 10))
       = Response 200 ''{}'' (Some (JObj []))"
    "apollo_post (server_error_env ''down'') [(''page'', JNum 1), (''per_page'', JNum 25)]
       = Response 500 ''down'' None"
    by (simp_all add: not_found_def found_nothing_def server_error_env_def)
  have p: "apollo_payload [] = Inr [(''page'', JNum 1), (''per_page'', JNum 25)]"
    by (simp add: apollo_payload_def dict_get_def)
  have h: "hunter_get flaky_env (hunter_params flaky_env ''apple.com'' JNull)
             = Response 500 ''unavailable'' None"
    "hunter_get flaky_env (hunter_params flaky_env ''meta.com'' JNull)
             = Response 200 ''...'' (Some sample_hunter_body)"
    by code_simp+
  show ?thesis
    using provider_status_contract
        [of "Some ''k''" not_found titles_only 404 "''no such route''" None
            "Some ''k''" not_found "JStr ''acme.com''" JNull "JNum 10"
            "server_error_env ''down''" "[]" "[(''page'', JNum 1), (''per_page'', JNum 25)]"]
      provider_status_contract
        [of "Some ''k''" found_nothing titles_only 200 "''{}''" "Some (JObj [])"
            "Some ''k''" found_nothing "JStr ''acme.com''" JNull "JNum 10"
            flaky_env _ _ "''meta.com''"]
      provider_status_contract
        [of _ _ _ 500 "''down''" None _ _ _ JNull _
            "server_error_env ''down''" "[]" "[(''page'', JNum 1), (''per_page'', JNum 25)]"]
      provider_status_contract
        [of _ _ _ 500 "''unavailable''" None _ _ _ JNull _ flaky_env _ _ "''apple.com''"]
      provider_status_contract
        [of _ _ _ 200 "''...''" "Some sample_hunter_body" _ _ _ JNull _ flaky_env _ _ "''meta.com''"]
      k n p h
    by simp
qed

text \<open>A standalone client that gets status 404 returns \<open>None\<close> and raises nothing; the
  Apollo client of main.py takes status 300 for a success; and the error it raises for
  status 500 is the same whatever the response text.\<close>

theorem status_contract_broken:
  "fst (people_search (Some ''k'') not_found titles_only) = Inr None \<and>
   fst (search_people_apollo multiple_choices_env []) = Inr [] \<and>
   fst (search_people_apollo (server_error_env ''first text'') []) =
     Inl (APIError ''Apollo API error'' (HTTPError 500)) \<and>
   fst (search_people_apollo (server_error_env ''second text'') []) =
     Inl (APIError ''Apollo API error'' (HTTPError 500))"
  by code_simp

end
